theory Spec2Isabelle
  imports Complex_Main
begin

section \<open>Values, errors and the NumPy operations the model uses\<close>

text \<open>
  The program is the class \<open>SEIR\<close> of \<open>src/seir/model.py\<close>. Floating-point numbers are
  idealised as \<^typ>\<open>real\<close>: the theorems below are about the algebraic structure of what
  the code computes, not about rounding. A division by zero (which NumPy answers with
  \<open>inf\<close> or \<open>nan\<close>, never with an exception) has no counterpart in \<^typ>\<open>real\<close>; no concrete
  input used below divides by zero.

  A one-dimensional array is a list, a two-dimensional array is the list of its rows.
\<close>

datatype error =
  AssertionError | ValueError | NameError | AttributeError | TypeError | IndexError

type_synonym ndarray = "real list"
type_synonym matrix = "real list list"

text \<open>
  A scalar-or-vector argument: a Python \<open>int\<close>, a Python \<open>float\<close> or a one-dimensional
  float array. \<open>isinstance(x, (int, float))\<close> holds for the first two.
\<close>

datatype param = PInt int | PFloat real | PArr ndarray

fun is_scalar :: "param \<Rightarrow> bool" where
  "is_scalar (PInt k) = True"
| "is_scalar (PFloat x) = True"
| "is_scalar (PArr xs) = False"

definition bind_result :: "error + 'a \<Rightarrow> ('a \<Rightarrow> error + 'b) \<Rightarrow> error + 'b" where
  "bind_result r f = (case r of Inl e \<Rightarrow> Inl e | Inr x \<Rightarrow> f x)"

fun sequence_result :: "(error + 'a) list \<Rightarrow> error + 'a list" where
  "sequence_result [] = Inr []"
| "sequence_result (r # rs) =
     bind_result r (\<lambda>x. bind_result (sequence_result rs) (\<lambda>xs. Inr (x # xs)))"

text \<open>
  An elementwise binary operation on two one-dimensional arrays, with NumPy's
  broadcasting: equal lengths go elementwise, a length-1 operand is stretched, anything
  else raises \<open>ValueError\<close>.
\<close>

definition broadcast :: "(real \<Rightarrow> real \<Rightarrow> real) \<Rightarrow> ndarray \<Rightarrow> ndarray \<Rightarrow> error + ndarray" where
  "broadcast f xs ys =
     (if length xs = length ys then Inr (map2 f xs ys)
      else if length ys = 1 then Inr (map (\<lambda>x. f x (hd ys)) xs)
      else if length xs = 1 then Inr (map (f (hd xs)) ys)
      else Inl ValueError)"

text \<open>The same operation between every row of a two-dimensional array and a vector.\<close>

definition broadcast_rows :: "(real \<Rightarrow> real \<Rightarrow> real) \<Rightarrow> matrix \<Rightarrow> ndarray \<Rightarrow> error + matrix" where
  "broadcast_rows f rows v = sequence_result (map (\<lambda>row. broadcast f row v) rows)"

text \<open>
  The in-place \<open>xs += ys\<close>: the result keeps the shape of \<open>xs\<close>, so \<open>ys\<close> must have that
  length or length 1.
\<close>

definition iadd :: "ndarray \<Rightarrow> ndarray \<Rightarrow> error + ndarray" where
  "iadd xs ys =
     (if length ys = length xs then Inr (map2 (+) xs ys)
      else if length ys = 1 then Inr (map (\<lambda>x. x + hd ys) xs)
      else Inl ValueError)"

definition ones :: "nat \<Rightarrow> nat \<Rightarrow> matrix" where
  "ones r c = replicate r (replicate c 1)"

definition ncols :: "matrix \<Rightarrow> nat" where
  "ncols M = (case M of [] \<Rightarrow> 0 | row # _ \<Rightarrow> length row)"

text \<open>\<open>M @ v\<close> for a two-dimensional \<open>M\<close> and a vector \<open>v\<close>.\<close>

definition matvec :: "matrix \<Rightarrow> ndarray \<Rightarrow> error + ndarray" where
  "matvec M v =
     (if list_all (\<lambda>row. length row = length v) M
      then Inr (map (\<lambda>row. sum_list (map2 (*) row v)) M)
      else Inl ValueError)"

text \<open>
  \<open>v @ M\<close> for a vector \<open>v\<close> and a two-dimensional \<open>M\<close>: entry \<open>j\<close> is
  \<open>\<Sum>i. v[i] * M[i][j]\<close>. The rows of an array all have the same length; a list of rows
  that do not is no array.
\<close>

definition vecmat :: "ndarray \<Rightarrow> matrix \<Rightarrow> error + ndarray" where
  "vecmat v M =
     (if length v = length M \<and> list_all (\<lambda>row. length row = ncols M) M
      then Inr (map (\<lambda>j. sum_list (map2 (\<lambda>x row. x * row ! j) v M)) [0..<ncols M])
      else Inl ValueError)"

text \<open>
  The truth value of a two-dimensional array, as \<open>if contacts_matrix:\<close> takes it: an
  array with more than one element raises \<open>ValueError\<close> (the truth value is ambiguous), an
  array with one element is true when that element is not zero, and an empty array is
  false.
\<close>

definition array_truth :: "matrix \<Rightarrow> error + bool" where
  "array_truth M =
     (case concat M of
        [] \<Rightarrow> Inr False
      | [x] \<Rightarrow> Inr (x \<noteq> 0)
      | _ \<Rightarrow> Inl ValueError)"

text \<open>
  \<open>np.ones(d)\<close> for a stored duration \<open>d\<close>: a non-negative \<open>int\<close> gives that many ones, a
  negative one raises \<open>ValueError\<close>, a \<open>float\<close> is not a shape (\<open>TypeError\<close>), and neither
  is a non-empty float array; the empty array is the empty shape, whose array of ones
  \<open>np.convolve\<close> reads as the one-element window.
\<close>

fun np_ones :: "param \<Rightarrow> error + ndarray" where
  "np_ones (PInt k) = (if 0 \<le> k then Inr (replicate (nat k) 1) else Inl ValueError)"
| "np_ones (PFloat x) = Inl TypeError"
| "np_ones (PArr []) = Inr [1]"
| "np_ones (PArr (x # xs)) = Inl TypeError"

text \<open>\<open>time - lag\<close> for a stored lag: a scalar is subtracted everywhere, an array broadcasts.\<close>

fun sub_lag :: "ndarray \<Rightarrow> param \<Rightarrow> error + ndarray" where
  "sub_lag time (PInt k) = Inr (map (\<lambda>t. t - of_int k) time)"
| "sub_lag time (PFloat x) = Inr (map (\<lambda>t. t - x) time)"
| "sub_lag time (PArr ls) = broadcast (-) time ls"

text \<open>
  \<open>np.convolve(a, v, mode='full')[m] = \<Sum>j. a[j] * v[m - j]\<close>, over the \<open>j\<close> for which
  both indices are in range.
\<close>

definition convolve_full :: "ndarray \<Rightarrow> ndarray \<Rightarrow> ndarray" where
  "convolve_full a v =
     map (\<lambda>m. sum_list (map (\<lambda>j. if j \<le> m \<and> m - j < length v then a ! j * v ! (m - j) else 0)
                              [0..<length a]))
         [0..<length a + length v - 1]"

text \<open>
  \<open>np.convolve(a, v, mode='same')\<close>: the operands are swapped when \<open>v\<close> is the longer
  one, an empty operand raises \<open>ValueError\<close>, and the result is the centred slice of the
  full convolution that has the length of the longer operand; it starts at index
  \<open>(n - 1) div 2\<close> of the full convolution, \<open>n\<close> the length of the shorter operand.
\<close>

definition convolve_same :: "ndarray \<Rightarrow> ndarray \<Rightarrow> error + ndarray" where
  "convolve_same a0 v0 =
     (let a = (if length v0 > length a0 then v0 else a0);
          v = (if length v0 > length a0 then a0 else v0)
      in if length a = 0 then Inl ValueError
         else if length v = 0 then Inl ValueError
         else Inr (take (length a) (drop ((length v - 1) div 2) (convolve_full a v))))"

text \<open>\<open>np.cumsum(rows, axis=0)\<close>: the running sum of the rows.\<close>

fun cumsum_from :: "ndarray \<Rightarrow> matrix \<Rightarrow> matrix" where
  "cumsum_from acc [] = []"
| "cumsum_from acc (row # rows) = map2 (+) acc row # cumsum_from (map2 (+) acc row) rows"

fun cumsum :: "matrix \<Rightarrow> matrix" where
  "cumsum [] = []"
| "cumsum (row # rows) = row # cumsum_from row rows"

text \<open>
  \<open>np.split(Y, 4)\<close> on a vector: four blocks of equal length, \<open>ValueError\<close> when the
  length is not a multiple of four.
\<close>

definition split4 :: "ndarray \<Rightarrow> error + (ndarray \<times> ndarray \<times> ndarray \<times> ndarray)" where
  "split4 Y =
     (if length Y mod 4 = 0
      then (let k = length Y div 4
            in Inr (take k Y, take k (drop k Y), take k (drop (2 * k) Y), drop (3 * k) Y))
      else Inl ValueError)"

text \<open>
  \<open>np.split(rows, 4, axis=-1)[b]\<close>: block \<open>b\<close> (0 for S, 1 for E, 2 for I, 3 for R) of
  every row.
\<close>

definition split4_block :: "nat \<Rightarrow> matrix \<Rightarrow> error + matrix" where
  "split4_block b rows =
     sequence_result
       (map (\<lambda>row. if length row mod 4 = 0
                   then Inr (take (length row div 4) (drop (b * (length row div 4)) row))
                   else Inl ValueError) rows)"

section \<open>The model object\<close>

text \<open>The keyword arguments of \<open>SEIR.__init__\<close>.\<close>

datatype restriction = RScalar real | RMatrix matrix

record init_args =
  arg_incubation_period :: param
  arg_infectious_period :: param
  arg_initial_R0 :: real
  arg_hospitalization_probability :: param
  arg_hospitalization_duration :: param
  arg_hospitalization_lag_from_onset :: param
  arg_icu_probability :: param
  arg_icu_duration :: param
  arg_icu_lag_from_onset :: param
  arg_death_probability :: param
  arg_death_lag_from_onset :: param
  arg_population :: param
  arg_compartments :: "string list option"
  arg_contacts_matrix :: "matrix option"
  arg_restrictions_function :: "(real \<Rightarrow> restriction) option"
  arg_imported_cases_function :: "(real \<Rightarrow> ndarray \<times> ndarray \<times> ndarray) option"

text \<open>
  The attributes of an instance. \<open>SEIR_solution\<close> holds the dense output of the ODE
  solver once \<open>simulate\<close> has run: the solver is not code of this repository, and its
  trajectory is a function from a time to a state vector.
\<close>

record seir =
  compartments :: "string list"
  num_compartments :: nat
  incubation_period :: ndarray
  infectious_period :: ndarray
  initial_R0 :: real
  hospitalization_probability :: ndarray
  hospitalization_duration :: param
  hospitalization_lag_from_onset :: param
  icu_probability :: ndarray
  icu_duration :: param
  icu_lag_from_onset :: param
  death_probability :: ndarray
  death_lag_from_onset :: param
  population :: ndarray
  infectivity_matrix :: matrix
  restrictions_function :: "(real \<Rightarrow> restriction) option"
  imported_cases_function :: "(real \<Rightarrow> ndarray \<times> ndarray \<times> ndarray) option"
  Y0 :: "ndarray option"
  SEIR_solution :: "(real \<Rightarrow> ndarray) option"

subsection \<open>\<open>_fix_size\<close> and \<open>_compute_infectivity_matrix\<close>\<close>

fun fix_size :: "nat \<Rightarrow> param \<Rightarrow> error + ndarray" where
  "fix_size n (PInt k) = Inr (map (\<lambda>one. one * of_int k) (replicate n 1))"
| "fix_size n (PFloat x) = Inr (map (\<lambda>one. one * x) (replicate n 1))"
| "fix_size n (PArr xs) = (if length xs = n then Inr xs else Inl AssertionError)"

text \<open>
  \<open>normalization\<close> is \<open>1 / infectious_period * initial_R0 * population.sum() /
  (population @ contacts_matrix).sum()\<close>: a vector, since \<open>infectious_period\<close> is one.
  \<open>normalization * contacts_matrix\<close> multiplies every row of the contact matrix by it,
  elementwise.
\<close>

definition compute_infectivity_matrix ::
  "ndarray \<Rightarrow> real \<Rightarrow> ndarray \<Rightarrow> matrix \<Rightarrow> error + matrix" where
  "compute_infectivity_matrix infectious R0 pop contacts_matrix =
     bind_result (vecmat pop contacts_matrix) (\<lambda>pc.
       let normalization = map (\<lambda>p. 1 / p * R0 * sum_list pop / sum_list pc) infectious
       in sequence_result (map (\<lambda>row. broadcast (*) normalization row) contacts_matrix))"

subsection \<open>\<open>__init__\<close>\<close>

definition check_population :: "nat \<Rightarrow> param \<Rightarrow> error + unit" where
  "check_population n p =
     (if is_scalar p then (if n = 1 then Inr () else Inl AssertionError)
      else (case p of PArr xs \<Rightarrow> if length xs = n then Inr () else Inl AssertionError
                    | _ \<Rightarrow> Inr ()))"

definition init_contacts :: "nat \<Rightarrow> matrix option \<Rightarrow> error + matrix" where
  "init_contacts n c =
     (case c of
        None \<Rightarrow> Inr (ones n n)
      | Some M \<Rightarrow>
          bind_result (array_truth M) (\<lambda>truthy.
            if truthy
            then (if length M = n
                  then (if ncols M = n then Inr M else Inl AssertionError)
                  else Inl AssertionError)
            else Inr (ones n n)))"

text \<open>\<open>if compartments:\<close> is false for \<open>None\<close> and for the empty list.\<close>

definition init_compartments :: "init_args \<Rightarrow> string list" where
  "init_compartments a =
     (case arg_compartments a of
        Some (c # cs) \<Rightarrow> c # cs
      | _ \<Rightarrow> [''All''])"

definition SEIR_init :: "init_args \<Rightarrow> error + seir" where
  "SEIR_init a =
     (let comps = init_compartments a;
          n = length comps
      in
      bind_result (fix_size n (arg_incubation_period a)) (\<lambda>incubation.
      bind_result (fix_size n (arg_infectious_period a)) (\<lambda>infectious.
      bind_result (fix_size n (arg_hospitalization_probability a)) (\<lambda>hprob.
      bind_result (fix_size n (arg_icu_probability a)) (\<lambda>iprob.
      bind_result (fix_size n (arg_death_probability a)) (\<lambda>dprob.
      bind_result (check_population n (arg_population a)) (\<lambda>_.
      bind_result (fix_size n (arg_population a)) (\<lambda>pop.
      bind_result (init_contacts n (arg_contacts_matrix a)) (\<lambda>contacts.
      bind_result (compute_infectivity_matrix infectious (arg_initial_R0 a) pop contacts)
        (\<lambda>infectivity.
      Inr \<lparr> compartments = comps,
            num_compartments = n,
            incubation_period = incubation,
            infectious_period = infectious,
            initial_R0 = arg_initial_R0 a,
            hospitalization_probability = hprob,
            hospitalization_duration = arg_hospitalization_duration a,
            hospitalization_lag_from_onset = arg_hospitalization_lag_from_onset a,
            icu_probability = iprob,
            icu_duration = arg_icu_duration a,
            icu_lag_from_onset = arg_icu_lag_from_onset a,
            death_probability = dprob,
            death_lag_from_onset = arg_death_lag_from_onset a,
            population = pop,
            infectivity_matrix = infectivity,
            restrictions_function = arg_restrictions_function a,
            imported_cases_function = arg_imported_cases_function a,
            Y0 = None,
            SEIR_solution = None \<rparr>))))))))))"

subsection \<open>\<open>__call__\<close>: the derivative law\<close>

text \<open>
  With a restriction function configured, the first statement reads the name
  \<open>restrictions_function\<close>, which is bound neither in the method nor in the module (the
  attribute is \<open>self.restrictions_function\<close>): a \<open>NameError\<close>. The imported-cases function
  returns three arrays, added in place to the rates of S, E and I.
\<close>

definition seir_call :: "seir \<Rightarrow> real \<Rightarrow> ndarray \<Rightarrow> error + ndarray" where
  "seir_call self t Y =
     bind_result (case restrictions_function self of
                    Some f \<Rightarrow> Inl NameError
                  | None \<Rightarrow> Inr (infectivity_matrix self)) (\<lambda>infectivity.
     bind_result (split4 Y) (\<lambda>(Sa, Ea, Ia, Ra).
     bind_result (broadcast (/) Sa (population self)) (\<lambda>s_frac.
     bind_result (matvec infectivity Ia) (\<lambda>force.
     bind_result (broadcast (*) (map uminus s_frac) force) (\<lambda>dS_dt.
     bind_result (broadcast (/) Ea (incubation_period self)) (\<lambda>e_out.
     bind_result (broadcast (-) (map uminus dS_dt) e_out) (\<lambda>dE_dt.
     bind_result (broadcast (/) Ea (incubation_period self)) (\<lambda>i_in.
     bind_result (broadcast (/) Ia (infectious_period self)) (\<lambda>i_out.
     bind_result (broadcast (-) i_in i_out) (\<lambda>dI_dt.
     bind_result (broadcast (/) Ia (infectious_period self)) (\<lambda>dR_dt.
     (case imported_cases_function self of
        None \<Rightarrow> Inr (dS_dt @ dE_dt @ dI_dt @ dR_dt)
      | Some g \<Rightarrow>
          (case g t of (DS, DE, DI) \<Rightarrow>
             bind_result (iadd dS_dt DS) (\<lambda>dS_dt'.
             bind_result (iadd dE_dt DE) (\<lambda>dE_dt'.
             bind_result (iadd dI_dt DI) (\<lambda>dI_dt'.
             Inr (dS_dt' @ dE_dt' @ dI_dt' @ dR_dt)))))))))))))))))"

subsection \<open>\<open>set_initial_state\<close>\<close>

text \<open>
  With \<open>probabilities\<close> set, each input is multiplied by the population vector
  (\<open>np.multiply\<close>, which broadcasts). Without it, a scalar input calls \<open>self._fix_sizes\<close>,
  a method the class does not have (\<open>AttributeError\<close>), and a vector input is checked
  against the number of compartments.
\<close>

fun multiply_population :: "param \<Rightarrow> ndarray \<Rightarrow> error + ndarray" where
  "multiply_population (PInt k) pop = Inr (map (\<lambda>p. of_int k * p) pop)"
| "multiply_population (PFloat x) pop = Inr (map (\<lambda>p. x * p) pop)"
| "multiply_population (PArr xs) pop = broadcast (*) xs pop"

fun raw_counts :: "nat \<Rightarrow> param \<Rightarrow> error + ndarray" where
  "raw_counts n (PInt k) = Inl AttributeError"
| "raw_counts n (PFloat x) = Inl AttributeError"
| "raw_counts n (PArr xs) = (if length xs = n then Inr xs else Inl AssertionError)"

definition set_initial_state :: "seir \<Rightarrow> param \<Rightarrow> param \<Rightarrow> param \<Rightarrow> bool \<Rightarrow> error + seir" where
  "set_initial_state self population_susceptible population_exposed population_infected
       probabilities =
     bind_result
       (if probabilities
        then bind_result (multiply_population population_susceptible (population self)) (\<lambda>S.
             bind_result (multiply_population population_exposed (population self)) (\<lambda>E.
             bind_result (multiply_population population_infected (population self)) (\<lambda>I.
             Inr (S, E, I))))
        else bind_result (raw_counts (num_compartments self) population_susceptible) (\<lambda>S.
             bind_result (raw_counts (num_compartments self) population_exposed) (\<lambda>E.
             bind_result (raw_counts (num_compartments self) population_infected) (\<lambda>I.
             Inr (S, E, I)))))
       (\<lambda>(S, E, I).
          let R = replicate (num_compartments self) 0
          in Inr (self\<lparr>Y0 := Some (S @ E @ I @ R)\<rparr>))"

subsection \<open>\<open>simulate\<close> and the solution it stores\<close>

text \<open>
  \<open>solve_ivp\<close> is the ODE primitive of SciPy, a parameter here: it takes the derivative
  law, the horizon and the initial state, and gives the dense trajectory or fails.
\<close>

type_synonym solver =
  "(real \<Rightarrow> ndarray \<Rightarrow> error + ndarray) \<Rightarrow> real \<Rightarrow> ndarray option \<Rightarrow> error + (real \<Rightarrow> ndarray)"

definition simulate :: "solver \<Rightarrow> seir \<Rightarrow> real \<Rightarrow> error + seir" where
  "simulate solve_ivp self days_to_simulate =
     bind_result (solve_ivp (seir_call self) days_to_simulate (Y0 self)) (\<lambda>solution.
       Inr (self\<lparr>SEIR_solution := Some solution\<rparr>))"

text \<open>
  \<open>solution.sol(ts)\<close>, the dense output of SciPy evaluated on an array of times, one
  row per time after the \<open>swapaxes\<close>: it groups the times by the integration segment they
  fall in, evaluates each group and stacks the pieces with \<open>np.hstack\<close>. For an empty
  array there is no piece to stack and \<open>np.hstack\<close> raises \<open>ValueError\<close>.
\<close>

definition solution_sol :: "(real \<Rightarrow> ndarray) \<Rightarrow> ndarray \<Rightarrow> error + matrix" where
  "solution_sol solution ts =
     (if ts = [] then Inl ValueError else Inr (map solution ts))"

text \<open>
  The closure \<open>SEIR_solution(time)\<close> defined inside \<open>simulate\<close>. It evaluates the dense
  solution on the selection of the non-negative times first, whether or not there are any;
  then the rows for the negative times, all equal to \<open>Y0\<close>, are put in front of the rows
  of the dense solution, which are in the order of the non-negative times.
\<close>

definition simulate_SEIR_solution ::
  "(real \<Rightarrow> ndarray) \<Rightarrow> ndarray \<Rightarrow> ndarray \<Rightarrow> error + matrix" where
  "simulate_SEIR_solution solution y0 time =
     (let postime = filter (\<lambda>t. t \<ge> 0) time
      in bind_result (solution_sol solution postime) (\<lambda>SEIR.
           let INI = replicate (length time - length postime) y0
           in Inr (INI @ SEIR)))"

text \<open>
  \<open>self.SEIR_solution(time)\<close>: calling the attribute while it is still \<open>None\<close> is a
  \<open>TypeError\<close>; the closure reads \<open>self.Y0\<close> when it is called.
\<close>

definition call_SEIR_solution :: "seir \<Rightarrow> ndarray \<Rightarrow> error + matrix" where
  "call_SEIR_solution self time =
     (case SEIR_solution self of
        None \<Rightarrow> Inl TypeError
      | Some solution \<Rightarrow>
          (case Y0 self of
             None \<Rightarrow> Inl ValueError
           | Some y0 \<Rightarrow> simulate_SEIR_solution solution y0 time))"

subsection \<open>\<open>evaluate_solution\<close>\<close>

text \<open>
  Column \<open>i\<close> of a two-dimensional array, \<open>rows[:, i]\<close>: an \<open>IndexError\<close> when the rows
  are not that long.
\<close>

definition column :: "matrix \<Rightarrow> nat \<Rightarrow> error + ndarray" where
  "column rows i =
     (if list_all (\<lambda>row. i < length row) rows
      then Inr (map (\<lambda>row. row ! i) rows)
      else Inl IndexError)"

text \<open>
  \<open>np.stack([np.convolve(cases[:, i], window, mode='same') for i in range(n)], axis=-1)\<close>:
  one convolution per compartment, stacked as the columns of the result.
\<close>

definition active_cases :: "nat \<Rightarrow> matrix \<Rightarrow> ndarray \<Rightarrow> error + matrix" where
  "active_cases n cases window =
     bind_result
       (sequence_result
          (map (\<lambda>i. bind_result (column cases i) (\<lambda>series. convolve_same series window))
               [0..<n]))
       (\<lambda>cols. Inr (transpose cols))"

text \<open>
  \<open>np.multiply(probability, np.divide(block, self.incubation_period))\<close> on the rows of a
  block of the lagged solution.
\<close>

definition new_cases_a_day :: "ndarray \<Rightarrow> ndarray \<Rightarrow> matrix \<Rightarrow> error + matrix" where
  "new_cases_a_day probability incubation block =
     bind_result (broadcast_rows (/) block incubation) (\<lambda>flow.
       sequence_result (map (\<lambda>row. broadcast (*) probability row) flow))"

text \<open>
  The seven arrays \<open>S, E, I, R, H_active_cases, ICU_active_cases, deaths\<close>. The ICU part
  takes block 2 of the lagged solution and convolves with \<open>Hwindow\<close>; \<open>ICUwindow\<close> is
  built and not used.
\<close>

definition evaluate_solution ::
  "seir \<Rightarrow> ndarray \<Rightarrow> error + (matrix \<times> matrix \<times> matrix \<times> matrix \<times> matrix \<times> matrix \<times> matrix)" where
  "evaluate_solution self time =
     bind_result (call_SEIR_solution self time) (\<lambda>SEIR.
     bind_result (split4_block 0 SEIR) (\<lambda>S.
     bind_result (split4_block 1 SEIR) (\<lambda>E.
     bind_result (split4_block 2 SEIR) (\<lambda>I.
     bind_result (split4_block 3 SEIR) (\<lambda>R.
     bind_result (broadcast_rows (/) E (incubation_period self)) (\<lambda>I_new_cases_a_day.
     let Icumulative = cumsum I_new_cases_a_day in
     bind_result (sub_lag time (hospitalization_lag_from_onset self)) (\<lambda>time_hl.
     bind_result (call_SEIR_solution self time_hl) (\<lambda>SEIR_hl.
     bind_result (split4_block 1 SEIR_hl) (\<lambda>Ehl.
     bind_result (new_cases_a_day (hospitalization_probability self) (incubation_period self) Ehl)
       (\<lambda>H_new_cases_a_day.
     bind_result (np_ones (hospitalization_duration self)) (\<lambda>Hwindow.
     bind_result (active_cases (num_compartments self) H_new_cases_a_day Hwindow)
       (\<lambda>H_active_cases.
     bind_result (sub_lag time (icu_lag_from_onset self)) (\<lambda>time_icu.
     bind_result (call_SEIR_solution self time_icu) (\<lambda>SEIR_icu_lag.
     bind_result (split4_block 2 SEIR_icu_lag) (\<lambda>E_icu_lag.
     bind_result (new_cases_a_day (icu_probability self) (incubation_period self) E_icu_lag)
       (\<lambda>ICU_new_cases_a_day.
     bind_result (np_ones (icu_duration self)) (\<lambda>ICUwindow.
     bind_result (active_cases (num_compartments self) ICU_new_cases_a_day Hwindow)
       (\<lambda>ICU_active_cases.
     bind_result (sub_lag time (death_lag_from_onset self)) (\<lambda>time_dl.
     bind_result (call_SEIR_solution self time_dl) (\<lambda>SEIR_death_lag.
     bind_result (split4_block 1 SEIR_death_lag) (\<lambda>E_death_lag.
     bind_result (new_cases_a_day (death_probability self) (incubation_period self) E_death_lag)
       (\<lambda>DEATH_new_cases_a_day.
     let deaths = cumsum DEATH_new_cases_a_day in
     Inr (S, E, I, R, H_active_cases, ICU_active_cases, deaths)))))))))))))))))))))))"

text \<open>The row that the stored solution answers for one query time.\<close>

definition solution_row :: "(real \<Rightarrow> ndarray) \<Rightarrow> ndarray \<Rightarrow> real \<Rightarrow> ndarray" where
  "solution_row solution y0 t = (if t < 0 then y0 else solution t)"

text \<open>The three derived series of a result.\<close>

definition H_active_of ::
  "matrix \<times> matrix \<times> matrix \<times> matrix \<times> matrix \<times> matrix \<times> matrix \<Rightarrow> matrix" where
  "H_active_of r = (case r of (S, E, I, R, H, ICU, D) \<Rightarrow> H)"

definition ICU_active_of ::
  "matrix \<times> matrix \<times> matrix \<times> matrix \<times> matrix \<times> matrix \<times> matrix \<Rightarrow> matrix" where
  "ICU_active_of r = (case r of (S, E, I, R, H, ICU, D) \<Rightarrow> ICU)"

definition deaths_of ::
  "matrix \<times> matrix \<times> matrix \<times> matrix \<times> matrix \<times> matrix \<times> matrix \<Rightarrow> matrix" where
  "deaths_of r = (case r of (S, E, I, R, H, ICU, D) \<Rightarrow> D)"

section \<open>The example configuration\<close>

text \<open>
  The parameters of the example run: one compartment (no labels given) of a million
  people, no contact matrix, no restriction and no imported cases.
\<close>

definition example_args :: init_args where
  "example_args =
     \<lparr> arg_incubation_period = PInt 3,
       arg_infectious_period = PInt 7,
       arg_initial_R0 = 23 / 10,
       arg_hospitalization_probability = PFloat (1 / 100),
       arg_hospitalization_duration = PInt 21,
       arg_hospitalization_lag_from_onset = PInt 6,
       arg_icu_probability = PFloat (1 / 1000),
       arg_icu_duration = PInt 7,
       arg_icu_lag_from_onset = PInt 21,
       arg_death_probability = PFloat (1 / 10),
       arg_death_lag_from_onset = PInt 27,
       arg_population = PFloat 1000000,
       arg_compartments = None,
       arg_contacts_matrix = None,
       arg_restrictions_function = None,
       arg_imported_cases_function = None \<rparr>"

definition example_model :: seir where
  "example_model =
     \<lparr> compartments = [''All''], num_compartments = 1,
       incubation_period = [3], infectious_period = [7], initial_R0 = 23 / 10,
       hospitalization_probability = [1 / 100], hospitalization_duration = PInt 21,
       hospitalization_lag_from_onset = PInt 6,
       icu_probability = [1 / 1000], icu_duration = PInt 7, icu_lag_from_onset = PInt 21,
       death_probability = [1 / 10], death_lag_from_onset = PInt 27,
       population = [1000000], infectivity_matrix = [[23 / 70]],
       restrictions_function = None, imported_cases_function = None,
       Y0 = None, SEIR_solution = None \<rparr>"

text \<open>
  The example model after \<open>set_initial_state(0.99, 0.005, 0.005, probabilities=True)\<close>.
\<close>

definition example_state :: seir where
  "example_state = example_model\<lparr>Y0 := Some [990000, 5000, 5000, 0]\<rparr>"

text \<open>\<open>np.arange(0, n, 1)\<close>: the daily grid \<open>0, 1, \<dots>, n - 1\<close>.\<close>

definition daily_grid :: "nat \<Rightarrow> ndarray" where
  "daily_grid n = map real [0..<n]"

text \<open>
  A stand-in for the ODE primitive, used only to close examples: the trajectory it
  answers with stays at the initial state.
\<close>

definition constant_solver :: solver where
  "constant_solver f T y0 = (case y0 of None \<Rightarrow> Inl ValueError | Some y \<Rightarrow> Inr (\<lambda>t. y))"

text \<open>
  The example run, end to end: construction, initial fractions 0.99, 0.005 and 0.005,
  200 days of simulation with the given ODE primitive, evaluation on the daily grid.
\<close>

definition example_run ::
  "solver \<Rightarrow> error + (matrix \<times> matrix \<times> matrix \<times> matrix \<times> matrix \<times> matrix \<times> matrix)" where
  "example_run solve_ivp =
     bind_result (SEIR_init example_args) (\<lambda>model.
     bind_result (set_initial_state model (PFloat (99 / 100)) (PFloat (1 / 200))
                    (PFloat (1 / 200)) True) (\<lambda>model.
     bind_result (simulate solve_ivp model 200) (\<lambda>model.
     evaluate_solution model (daily_grid 200))))"

text \<open>
  The two age groups of the demonstration at the end of the module, here with an
  infectious period of their own each.
\<close>

definition two_groups_args :: init_args where
  "two_groups_args =
     example_args \<lparr> arg_infectious_period := PArr [7, 14],
                    arg_population := PArr [2500000, 1000000],
                    arg_compartments := Some [''1-5'', ''5-10''] \<rparr>"

definition two_groups_model :: seir where
  "two_groups_model =
     \<lparr> compartments = [''1-5'', ''5-10''], num_compartments = 2,
       incubation_period = [3, 3], infectious_period = [7, 14], initial_R0 = 23 / 10,
       hospitalization_probability = [1 / 100, 1 / 100], hospitalization_duration = PInt 21,
       hospitalization_lag_from_onset = PInt 6,
       icu_probability = [1 / 1000, 1 / 1000], icu_duration = PInt 7,
       icu_lag_from_onset = PInt 21,
       death_probability = [1 / 10, 1 / 10], death_lag_from_onset = PInt 27,
       population = [2500000, 1000000],
       infectivity_matrix = [[23 / 140, 23 / 280], [23 / 140, 23 / 280]],
       restrictions_function = None, imported_cases_function = None,
       Y0 = None, SEIR_solution = None \<rparr>"

section \<open>Properties the claims speak of\<close>

text \<open>
  \<open>normalised n p v\<close>: the stored vector \<open>v\<close> is the argument \<open>p\<close> brought to length
  \<open>n\<close>, a scalar repeated \<open>n\<close> times and a vector of length \<open>n\<close> kept as it is.
  \<open>wrong_size n p\<close>: the argument is a vector whose length is not \<open>n\<close>.
\<close>

definition normalised :: "nat \<Rightarrow> param \<Rightarrow> ndarray \<Rightarrow> bool" where
  "normalised n p v =
     (case p of
        PInt k \<Rightarrow> v = replicate n (of_int k)
      | PFloat x \<Rightarrow> v = replicate n x
      | PArr xs \<Rightarrow> v = xs \<and> length xs = n)"

definition wrong_size :: "nat \<Rightarrow> param \<Rightarrow> bool" where
  "wrong_size n p = (case p of PArr xs \<Rightarrow> length xs \<noteq> n | _ \<Rightarrow> False)"

text \<open>
  Active ICU occupancy in the words of the specification: the construction of the active
  hospitalizations with the ICU probability, the ICU lag and a window of the ICU duration,
  on the onset flow \<open>E / incubation_period\<close> (block 1 of the lagged solution).
\<close>

definition ICU_active_spec :: "seir \<Rightarrow> ndarray \<Rightarrow> error + matrix" where
  "ICU_active_spec self time =
     bind_result (sub_lag time (icu_lag_from_onset self)) (\<lambda>time_icu.
     bind_result (call_SEIR_solution self time_icu) (\<lambda>SEIR_icu_lag.
     bind_result (split4_block 1 SEIR_icu_lag) (\<lambda>E_icu_lag.
     bind_result (new_cases_a_day (icu_probability self) (incubation_period self) E_icu_lag)
       (\<lambda>ICU_new_cases_a_day.
     bind_result (np_ones (icu_duration self)) (\<lambda>ICUwindow.
     active_cases (num_compartments self) ICU_new_cases_a_day ICUwindow)))))"

text \<open>
  The derivative law in the words of the specification, compartment by compartment, for a
  state \<open>Y\<close> laid out as the blocks S, E, I, R of length \<open>N\<close> each:
  \<open>dS\<^sub>i = - (S\<^sub>i / population\<^sub>i) * (row i of the infectivity matrix \<cdot> I)\<close>,
  \<open>dE\<^sub>i = - dS\<^sub>i - E\<^sub>i / incubation_period\<^sub>i\<close>,
  \<open>dI\<^sub>i = E\<^sub>i / incubation_period\<^sub>i - I\<^sub>i / infectious_period\<^sub>i\<close>,
  \<open>dR\<^sub>i = I\<^sub>i / infectious_period\<^sub>i\<close>.
\<close>

definition spec_dS :: "seir \<Rightarrow> ndarray \<Rightarrow> nat \<Rightarrow> real" where
  "spec_dS m Y i =
     - (Y ! i / population m ! i) *
       sum_list (map (\<lambda>j. infectivity_matrix m ! i ! j * Y ! (2 * num_compartments m + j))
                     [0..<num_compartments m])"

definition spec_dE :: "seir \<Rightarrow> ndarray \<Rightarrow> nat \<Rightarrow> real" where
  "spec_dE m Y i = - spec_dS m Y i - Y ! (num_compartments m + i) / incubation_period m ! i"

definition spec_dI :: "seir \<Rightarrow> ndarray \<Rightarrow> nat \<Rightarrow> real" where
  "spec_dI m Y i =
     Y ! (num_compartments m + i) / incubation_period m ! i
     - Y ! (2 * num_compartments m + i) / infectious_period m ! i"

definition spec_dR :: "seir \<Rightarrow> ndarray \<Rightarrow> nat \<Rightarrow> real" where
  "spec_dR m Y i = Y ! (2 * num_compartments m + i) / infectious_period m ! i"

definition derivative_law_spec :: "seir \<Rightarrow> ndarray \<Rightarrow> ndarray" where
  "derivative_law_spec m Y =
     map (spec_dS m Y) [0..<num_compartments m] @ map (spec_dE m Y) [0..<num_compartments m] @
     map (spec_dI m Y) [0..<num_compartments m] @ map (spec_dR m Y) [0..<num_compartments m]"

section \<open>Basic facts about the operations\<close>

lemma bind_result_Inr: "bind_result (Inr x) f = f x"
  by (simp add: bind_result_def)

lemma bind_result_eq_Inr:
  "bind_result r f = Inr y \<longleftrightarrow> (\<exists>x. r = Inr x \<and> f x = Inr y)"
  by (cases r) (simp_all add: bind_result_def)

lemma sequence_result_map_Inr: "sequence_result (map (\<lambda>x. Inr (f x)) xs) = Inr (map f xs)"
  by (induction xs) (simp_all add: bind_result_Inr)

lemma broadcast_same: "length xs = length ys \<Longrightarrow> broadcast f xs ys = Inr (map2 f xs ys)"
  by (simp add: broadcast_def)

lemma fix_size_length: "fix_size n p = Inr xs \<Longrightarrow> length xs = n"
  by (cases p) (auto split: if_splits)

text \<open>
  A contact matrix that passes the truth test and the two shape assertions is a
  one-by-one matrix with a non-zero entry.
\<close>

lemma array_truth_True:
  assumes "array_truth M = Inr True" "length M = n" "ncols M = n"
  shows "\<exists>x. M = [[x]] \<and> x \<noteq> 0 \<and> n = 1"
proof -
  from assms(1) obtain x where c: "concat M = [x]" and x: "x \<noteq> 0"
    by (auto simp: array_truth_def split: list.splits if_splits)
  from c obtain r rs where M: "M = r # rs" by (cases M) auto
  with assms have len: "length r = Suc (length rs)" by (simp add: ncols_def)
  then obtain y ys where r: "r = y # ys" by (cases r) auto
  with c M have "ys = []" "concat rs = []" "y = x" by auto
  with len r have "rs = []" by simp
  with M r \<open>ys = []\<close> \<open>y = x\<close> x assms(2) show ?thesis by auto
qed

lemma init_contacts_shape:
  assumes "init_contacts n c = Inr M"
  shows "length M = n \<and> list_all (\<lambda>row. length row = n) M"
proof (cases c)
  case None
  with assms show ?thesis by (auto simp: init_contacts_def ones_def list_all_iff)
next
  case (Some C)
  show ?thesis
  proof (cases "array_truth C = Inr True \<and> length C = n \<and> ncols C = n")
    case True
    then obtain x where "C = [[x]]" "n = 1" using array_truth_True by blast
    moreover from assms Some True have "M = C"
      by (simp add: init_contacts_def bind_result_Inr)
    ultimately show ?thesis by simp
  next
    case False
    with assms Some have "M = ones n n"
      by (auto simp: init_contacts_def bind_result_eq_Inr split: if_splits)
    then show ?thesis by (auto simp: ones_def list_all_iff)
  qed
qed

text \<open>The infectivity matrix of a contact matrix of the right shape, row by row.\<close>

lemma compute_infectivity_matrix_eq:
  assumes "length pop = length C" "list_all (\<lambda>row. length row = length infectious) C"
  shows "compute_infectivity_matrix infectious R0 pop C =
           Inr (map (\<lambda>row. map2 (*) (map (\<lambda>p. 1 / p * R0 * sum_list pop /
                  sum_list (map (\<lambda>j. sum_list (map2 (\<lambda>x row. x * row ! j) pop C))
                     [0..<ncols C])) infectious) row) C)"
proof -
  define nrm where "nrm = map (\<lambda>p. 1 / p * R0 * sum_list pop /
      sum_list (map (\<lambda>j. sum_list (map2 (\<lambda>x row. x * row ! j) pop C)) [0..<ncols C])) infectious"
  have "map (\<lambda>row. broadcast (*) nrm row) C = map (\<lambda>row. Inr (map2 (*) nrm row)) C"
    using assms(2) by (intro map_cong) (auto simp: list_all_iff broadcast_def nrm_def)
  then have seq: "sequence_result (map (\<lambda>row. broadcast (*) nrm row) C) =
      Inr (map (\<lambda>row. map2 (*) nrm row) C)"
    by (simp only: sequence_result_map_Inr)
  have "list_all (\<lambda>row. length row = ncols C) C"
    using assms(2) by (cases C) (auto simp: ncols_def list_all_iff)
  then have "vecmat pop C =
      Inr (map (\<lambda>j. sum_list (map2 (\<lambda>x row. x * row ! j) pop C)) [0..<ncols C])"
    using assms(1) by (simp add: vecmat_def)
  then show ?thesis
    unfolding compute_infectivity_matrix_def
    using seq by (simp only: bind_result_Inr Let_def nrm_def)
qed

text \<open>What a successful construction stores.\<close>

lemma SEIR_init_Inr:
  assumes "SEIR_init a = Inr m"
  shows "\<exists>contacts.
      num_compartments m = length (init_compartments a) \<and>
      fix_size (num_compartments m) (arg_incubation_period a) = Inr (incubation_period m) \<and>
      fix_size (num_compartments m) (arg_infectious_period a) = Inr (infectious_period m) \<and>
      fix_size (num_compartments m) (arg_hospitalization_probability a) =
        Inr (hospitalization_probability m) \<and>
      fix_size (num_compartments m) (arg_icu_probability a) = Inr (icu_probability m) \<and>
      fix_size (num_compartments m) (arg_death_probability a) = Inr (death_probability m) \<and>
      check_population (num_compartments m) (arg_population a) = Inr () \<and>
      fix_size (num_compartments m) (arg_population a) = Inr (population m) \<and>
      init_contacts (num_compartments m) (arg_contacts_matrix a) = Inr contacts \<and>
      compute_infectivity_matrix (infectious_period m) (arg_initial_R0 a) (population m) contacts =
        Inr (infectivity_matrix m) \<and>
      restrictions_function m = arg_restrictions_function a \<and>
      imported_cases_function m = arg_imported_cases_function a \<and>
      Y0 m = None \<and> SEIR_solution m = None"
  using assms unfolding SEIR_init_def Let_def bind_result_eq_Inr by auto

lemma init_compartments_nonempty: "0 < length (init_compartments a)"
  by (auto simp: init_compartments_def split: option.splits list.splits)

lemma SEIR_init_sizes:
  assumes "SEIR_init a = Inr m"
  shows "0 < num_compartments m"
    and "length (population m) = num_compartments m"
    and "length (incubation_period m) = num_compartments m"
    and "length (infectious_period m) = num_compartments m"
    and "length (hospitalization_probability m) = num_compartments m"
    and "length (icu_probability m) = num_compartments m"
    and "length (death_probability m) = num_compartments m"
    and "length (infectivity_matrix m) = num_compartments m"
    and "list_all (\<lambda>row. length row = num_compartments m) (infectivity_matrix m)"
proof -
  from SEIR_init_Inr [OF assms] obtain contacts where
    n: "num_compartments m = length (init_compartments a)"
    and f: "fix_size (num_compartments m) (arg_incubation_period a) = Inr (incubation_period m)"
      "fix_size (num_compartments m) (arg_infectious_period a) = Inr (infectious_period m)"
      "fix_size (num_compartments m) (arg_hospitalization_probability a) =
         Inr (hospitalization_probability m)"
      "fix_size (num_compartments m) (arg_icu_probability a) = Inr (icu_probability m)"
      "fix_size (num_compartments m) (arg_death_probability a) = Inr (death_probability m)"
      "fix_size (num_compartments m) (arg_population a) = Inr (population m)"
    and c: "init_contacts (num_compartments m) (arg_contacts_matrix a) = Inr contacts"
    and i: "compute_infectivity_matrix (infectious_period m) (arg_initial_R0 a) (population m)
              contacts = Inr (infectivity_matrix m)"
    by blast
  note len = f [THEN fix_size_length]
  from init_contacts_shape [OF c]
  have cs: "length contacts = num_compartments m"
    "list_all (\<lambda>row. length row = num_compartments m) contacts"
    by auto
  have "length (population m) = length contacts"
    "list_all (\<lambda>row. length row = length (infectious_period m)) contacts"
    using cs len by auto
  from compute_infectivity_matrix_eq [OF this, of "arg_initial_R0 a"] i cs len
  have im: "length (infectivity_matrix m) = num_compartments m"
    "list_all (\<lambda>row. length row = num_compartments m) (infectivity_matrix m)"
    by (auto simp: list_all_iff)
  show "0 < num_compartments m"
    and "length (population m) = num_compartments m"
    and "length (incubation_period m) = num_compartments m"
    and "length (infectious_period m) = num_compartments m"
    and "length (hospitalization_probability m) = num_compartments m"
    and "length (icu_probability m) = num_compartments m"
    and "length (death_probability m) = num_compartments m"
    and "length (infectivity_matrix m) = num_compartments m"
    and "list_all (\<lambda>row. length row = num_compartments m) (infectivity_matrix m)"
    using init_compartments_nonempty [of a] n len im by simp_all
qed

text \<open>The model object of the example configuration.\<close>

lemma example_init: "SEIR_init example_args = Inr example_model"
  by (simp add: SEIR_init_def example_args_def example_model_def init_compartments_def
      bind_result_def check_population_def init_contacts_def ones_def
      compute_infectivity_matrix_def vecmat_def ncols_def broadcast_def)

lemma two_groups_init: "SEIR_init two_groups_args = Inr two_groups_model"
  by (simp add: SEIR_init_def two_groups_args_def two_groups_model_def example_args_def
      init_compartments_def bind_result_def check_population_def init_contacts_def ones_def
      compute_infectivity_matrix_def vecmat_def ncols_def broadcast_def upt_rec numeral_2_eq_2
      Let_def)

lemma split4_blocks:
  assumes "length Y = 4 * n"
  shows "split4 Y = Inr (take n Y, take n (drop n Y), take n (drop (2 * n) Y), drop (3 * n) Y)"
  using assms by (simp add: split4_def Let_def)

lemma matvec_square:
  assumes "list_all (\<lambda>row. length row = length v) M"
  shows "matvec M v = Inr (map (\<lambda>row. sum_list (map2 (*) row v)) M)"
  using assms by (simp add: matvec_def)

lemma map2_nth_upt:
  assumes "length xs = n" "length ys = n"
  shows "map2 f xs ys = map (\<lambda>i. f (xs ! i) (ys ! i)) [0..<n]"
  using assms by (intro nth_equalityI) auto

lemma sum_list_map2_upt:
  fixes f :: "'a \<Rightarrow> 'b \<Rightarrow> real"
  assumes "length xs = n" "length ys = n"
  shows "sum_list (map2 f xs ys) = sum_list (map (\<lambda>j. f (xs ! j) (ys ! j)) [0..<n])"
  by (simp only: map2_nth_upt [OF assms])

text \<open>The derivative law without restriction, before the imported cases are added.\<close>

lemma seir_call_rates:
  assumes r: "restrictions_function m = None"
    and sz: "length (population m) = num_compartments m"
      "length (incubation_period m) = num_compartments m"
      "length (infectious_period m) = num_compartments m"
      "length (infectivity_matrix m) = num_compartments m"
      "list_all (\<lambda>row. length row = num_compartments m) (infectivity_matrix m)"
    and Y: "length Y = 4 * num_compartments m"
  shows "seir_call m t Y =
    (case imported_cases_function m of
       None \<Rightarrow> Inr (derivative_law_spec m Y)
     | Some g \<Rightarrow>
        (case g t of (DS, DE, DI) \<Rightarrow>
           bind_result (iadd (map (spec_dS m Y) [0..<num_compartments m]) DS) (\<lambda>dS'.
           bind_result (iadd (map (spec_dE m Y) [0..<num_compartments m]) DE) (\<lambda>dE'.
           bind_result (iadd (map (spec_dI m Y) [0..<num_compartments m]) DI) (\<lambda>dI'.
           Inr (dS' @ dE' @ dI' @ map (spec_dR m Y) [0..<num_compartments m]))))))"
proof -
  define n where "n = num_compartments m"
  define Sa where "Sa = take n Y"
  define Ea where "Ea = take n (drop n Y)"
  define Ia where "Ia = take n (drop (2 * n) Y)"
  have len: "length Sa = n" "length Ea = n" "length Ia = n"
    using Y by (simp_all add: Sa_def Ea_def Ia_def n_def)
  have nth: "\<And>i. i < n \<Longrightarrow> Sa ! i = Y ! i" "\<And>i. i < n \<Longrightarrow> Ea ! i = Y ! (n + i)"
    "\<And>i. i < n \<Longrightarrow> Ia ! i = Y ! (2 * n + i)"
    using Y by (simp_all add: Sa_def Ea_def Ia_def n_def)
  have rows: "\<And>i. i < n \<Longrightarrow> length (infectivity_matrix m ! i) = n"
    using sz(4,5) by (auto simp: list_all_length n_def)
  have force: "matvec (infectivity_matrix m) Ia =
      Inr (map (\<lambda>i. sum_list (map (\<lambda>j. infectivity_matrix m ! i ! j * Y ! (2 * n + j)) [0..<n])) [0..<n])"
  proof -
    have "matvec (infectivity_matrix m) Ia =
        Inr (map (\<lambda>row. sum_list (map2 (*) row Ia)) (infectivity_matrix m))"
      using sz(5) len by (intro matvec_square) (simp add: n_def)
    also have "map (\<lambda>row. sum_list (map2 (*) row Ia)) (infectivity_matrix m) =
        map (\<lambda>i. sum_list (map (\<lambda>j. infectivity_matrix m ! i ! j * Y ! (2 * n + j)) [0..<n])) [0..<n]"
    proof (intro nth_equalityI)
      show "length (map (\<lambda>row. sum_list (map2 (*) row Ia)) (infectivity_matrix m)) =
          length (map (\<lambda>i. sum_list (map (\<lambda>j. infectivity_matrix m ! i ! j * Y ! (2 * n + j)) [0..<n])) [0..<n])"
        using sz(4) by (simp add: n_def)
    next
      fix i assume "i < length (map (\<lambda>row. sum_list (map2 (*) row Ia)) (infectivity_matrix m))"
      then have i: "i < n" using sz(4) by (simp add: n_def)
      have "sum_list (map2 (*) (infectivity_matrix m ! i) Ia) =
          sum_list (map (\<lambda>j. infectivity_matrix m ! i ! j * Ia ! j) [0..<n])"
        using rows [OF i] len by (intro sum_list_map2_upt) auto
      also have "\<dots> = sum_list (map (\<lambda>j. infectivity_matrix m ! i ! j * Y ! (2 * n + j)) [0..<n])"
        by (intro arg_cong [where f = sum_list] map_cong) (auto simp: nth)
      finally show "map (\<lambda>row. sum_list (map2 (*) row Ia)) (infectivity_matrix m) ! i =
          map (\<lambda>i. sum_list (map (\<lambda>j. infectivity_matrix m ! i ! j * Y ! (2 * n + j)) [0..<n])) [0..<n] ! i"
        using i sz(4) by (simp add: n_def)
    qed
    finally show ?thesis .
  qed
  have s_frac: "broadcast (/) Sa (population m) = Inr (map (\<lambda>i. Y ! i / population m ! i) [0..<n])"
    using len sz(1) by (simp add: broadcast_same map2_nth_upt [where n = n] n_def nth cong: map_cong)
  have dS: "broadcast (*) (map uminus (map (\<lambda>i. Y ! i / population m ! i) [0..<n]))
        (map (\<lambda>i. sum_list (map (\<lambda>j. infectivity_matrix m ! i ! j * Y ! (2 * n + j)) [0..<n])) [0..<n])
      = Inr (map (spec_dS m Y) [0..<n])"
    by (simp add: broadcast_same map2_nth_upt [where n = n] spec_dS_def n_def cong: map_cong)
  have e_out: "broadcast (/) Ea (incubation_period m) =
      Inr (map (\<lambda>i. Y ! (n + i) / incubation_period m ! i) [0..<n])"
    using len sz(2) by (simp add: broadcast_same map2_nth_upt [where n = n] n_def nth cong: map_cong)
  have dE: "broadcast (-) (map uminus (map (spec_dS m Y) [0..<n]))
        (map (\<lambda>i. Y ! (n + i) / incubation_period m ! i) [0..<n])
      = Inr (map (spec_dE m Y) [0..<n])"
    by (simp add: broadcast_same map2_nth_upt [where n = n] spec_dE_def n_def cong: map_cong)
  have i_out: "broadcast (/) Ia (infectious_period m) =
      Inr (map (spec_dR m Y) [0..<n])"
    using len sz(3)
    by (simp add: broadcast_same map2_nth_upt [where n = n] n_def nth spec_dR_def cong: map_cong)
  have dI: "broadcast (-) (map (\<lambda>i. Y ! (n + i) / incubation_period m ! i) [0..<n])
        (map (spec_dR m Y) [0..<n]) = Inr (map (spec_dI m Y) [0..<n])"
    by (simp add: broadcast_same map2_nth_upt [where n = n] spec_dI_def spec_dR_def n_def
        cong: map_cong)
  have sp: "split4 Y = Inr (Sa, Ea, Ia, drop (3 * n) Y)"
    using Y by (simp add: split4_blocks [where n = n] n_def Sa_def Ea_def Ia_def)
  show ?thesis
    unfolding seir_call_def
    by (simp only: r option.case bind_result_Inr sp prod.case s_frac force dS e_out dE i_out dI
        derivative_law_spec_def flip: n_def)
qed

lemma sum_list_map2_sum:
  fixes f :: "'a \<Rightarrow> 'b \<Rightarrow> real"
  assumes "length xs = length ys"
  shows "sum_list (map2 f xs ys) = (\<Sum>k<length xs. f (xs ! k) (ys ! k))"
proof -
  have "sum_list (map2 f xs ys) = (\<Sum>k = 0..<length xs. map2 f xs ys ! k)"
    using assms by (simp add: sum_list_sum_nth)
  also have "\<dots> = (\<Sum>k = 0..<length xs. f (xs ! k) (ys ! k))"
    using assms by (intro sum.cong) auto
  finally show ?thesis by (simp add: atLeast0LessThan)
qed

lemma sum_list_map_upt_sum:
  fixes f :: "nat \<Rightarrow> real"
  shows "sum_list (map f [0..<n]) = (\<Sum>k<n. f k)"
  by (simp add: interv_sum_list_conv_sum_set_nat atLeast0LessThan)

lemma seir_call_state_independent:
  "seir_call (m\<lparr>Y0 := y, SEIR_solution := s\<rparr>) t Y = seir_call m t Y"
  by (cases "restrictions_function m") (simp_all add: seir_call_def)

lemma derivative_law_spec_nth:
  assumes "i < num_compartments m"
  shows "derivative_law_spec m Y ! i = spec_dS m Y i"
    and "derivative_law_spec m Y ! (num_compartments m + i) = spec_dE m Y i"
    and "derivative_law_spec m Y ! (2 * num_compartments m + i) = spec_dI m Y i"
    and "derivative_law_spec m Y ! (3 * num_compartments m + i) = spec_dR m Y i"
  using assms by (simp_all add: derivative_law_spec_def nth_append)

lemma iadd_same: "length ys = length xs \<Longrightarrow> iadd xs ys = Inr (map2 (+) xs ys)"
  by (simp add: iadd_def)

text \<open>An ascending array has its negative entries first.\<close>

lemma sorted_negative_first:
  fixes time :: "real list"
  assumes "sorted time"
  shows "map (\<lambda>t. if t < 0 then y0 else solution t) time =
         replicate (length time - length (filter (\<lambda>t. t \<ge> 0) time)) y0 @
         map solution (filter (\<lambda>t. t \<ge> 0) time)"
  using assms
proof (induction time)
  case Nil
  then show ?case by simp
next
  case (Cons x xs)
  show ?case
  proof (cases "x < 0")
    case True
    have "length (filter (\<lambda>t. t \<ge> 0) xs) \<le> length xs" by simp
    then have "Suc (length xs) - length (filter (\<lambda>t. t \<ge> 0) xs) =
        Suc (length xs - length (filter (\<lambda>t. t \<ge> 0) xs))"
      by (rule Suc_diff_le)
    with True Cons show ?thesis by simp
  next
    case False
    with Cons.prems have "\<forall>t\<in>set xs. 0 \<le> t" by auto
    then have "filter (\<lambda>t. t \<ge> 0) xs = xs" "map (\<lambda>t. if t < 0 then y0 else solution t) xs = map solution xs"
      by (auto simp: filter_id_conv)
    with False show ?thesis by simp
  qed
qed

lemma fix_size_normalised: "fix_size n p = Inr v \<Longrightarrow> normalised n p v"
  by (cases p) (auto simp: normalised_def map_replicate_const split: if_splits)

lemma fix_size_cases:
  "fix_size n p = Inl AssertionError \<and> wrong_size n p \<or>
   (\<exists>v. fix_size n p = Inr v) \<and> \<not> wrong_size n p"
  by (cases p) (simp_all add: wrong_size_def)

lemma check_population_cases:
  "check_population n p = Inl AssertionError \<and> (wrong_size n p \<or> is_scalar p \<and> n \<noteq> 1) \<or>
   check_population n p = Inr () \<and> \<not> wrong_size n p \<and> \<not> (is_scalar p \<and> n \<noteq> 1)"
  by (cases p) (simp_all add: wrong_size_def check_population_def)

lemma bind_result_AssertionError:
  assumes "r = Inl AssertionError \<or> (\<exists>v. r = Inr v)"
    and "\<And>v. r = Inr v \<Longrightarrow> f v = Inl AssertionError"
  shows "bind_result r f = Inl AssertionError"
  using assms by (auto simp: bind_result_def)

lemma set_initial_state_keeps:
  assumes "set_initial_state m S E I p = Inr m'"
  shows "m' = m\<lparr>Y0 := Y0 m'\<rparr>"
  using assms
  by (auto simp: set_initial_state_def bind_result_eq_Inr Let_def split: if_splits)

lemma simulate_keeps:
  assumes "simulate solve_ivp m T = Inr m'"
  shows "m' = m\<lparr>SEIR_solution := SEIR_solution m'\<rparr>"
  using assms by (auto simp: simulate_def bind_result_eq_Inr)

lemma example_set_initial_state:
  "set_initial_state example_model (PFloat (99 / 100)) (PFloat (1 / 200)) (PFloat (1 / 200)) True
     = Inr example_state"
  by (simp add: set_initial_state_def bind_result_def example_state_def example_model_def)

lemma daily_grid_sorted: "sorted (map (\<lambda>t. t - lag) (daily_grid n))"
  by (simp add: sorted_iff_nth_mono daily_grid_def)

text \<open>
  The query of an ascending array that has a non-negative time: one row per time, in the
  order of the times.
\<close>

lemma SEIR_solution_sorted:
  assumes "sorted time" and "filter (\<lambda>t. t \<ge> 0) time \<noteq> []"
  shows "simulate_SEIR_solution solution y0 time = Inr (map (solution_row solution y0) time)"
proof -
  have "map (solution_row solution y0) time = map (\<lambda>t. if t < 0 then y0 else solution t) time"
    by (simp add: solution_row_def)
  with sorted_negative_first [OF assms(1), of y0 solution] assms(2) show ?thesis
    by (simp add: simulate_SEIR_solution_def solution_sol_def Let_def bind_result_Inr)
qed

text \<open>The query of an array without a non-negative time does not return.\<close>

lemma SEIR_solution_all_negative:
  assumes "filter (\<lambda>t. t \<ge> 0) time = []"
  shows "simulate_SEIR_solution solution y0 time = Inl ValueError"
  using assms by (simp add: simulate_SEIR_solution_def solution_sol_def bind_result_def)

lemma lagged_query:
  assumes "0 < n" and "lag + 1 \<le> real n"
  shows "simulate_SEIR_solution solution y0 (map (\<lambda>t. t - lag) (daily_grid n)) =
     Inr (map (\<lambda>j. solution_row solution y0 (real j - lag)) [0..<n])"
proof -
  have "real (n - 1) - lag \<in> set (map (\<lambda>t. t - lag) (daily_grid n))"
    using assms(1) by (auto simp: daily_grid_def image_iff intro!: bexI [where x = "n - 1"])
  moreover have "0 \<le> real (n - 1) - lag"
    using assms by (simp add: of_nat_diff)
  ultimately have "filter (\<lambda>t. t \<ge> 0) (map (\<lambda>t. t - lag) (daily_grid n)) \<noteq> []"
    by (auto simp: filter_empty_conv)
  from SEIR_solution_sorted [OF daily_grid_sorted this, of solution y0] show ?thesis
    by (simp add: daily_grid_def comp_def)
qed

lemma split4_block_rows4:
  assumes "list_all (\<lambda>row. length row = 4) rows" and "b < 4"
  shows "split4_block b rows = Inr (map (\<lambda>row. [row ! b]) rows)"
proof -
  have "take (Suc 0) (drop b row) = [row ! b]" if "length row = 4" for row :: "real list"
    using that assms(2) by (simp add: take_Suc_conv_app_nth)
  then have "map (\<lambda>row. if length row mod 4 = 0
                   then Inr (take (length row div 4) (drop (b * (length row div 4)) row))
                   else Inl ValueError) rows = map (\<lambda>row. Inr [row ! b]) rows"
    using assms(1) by (intro map_cong) (auto simp: list_all_iff)
  then show ?thesis
    by (simp only: split4_block_def sequence_result_map_Inr)
qed

lemma broadcast_rows_single:
  "broadcast_rows f (map (\<lambda>x. [g x]) xs) [c] = Inr (map (\<lambda>x. [f (g x) c]) xs)"
proof -
  have "map (\<lambda>row. broadcast f row [c]) (map (\<lambda>x. [g x]) xs) = map (\<lambda>x. Inr [f (g x) c]) xs"
    by (simp add: broadcast_def)
  then show ?thesis
    by (simp only: broadcast_rows_def sequence_result_map_Inr)
qed

lemma new_cases_a_day_single:
  "new_cases_a_day [p] [inc] (map (\<lambda>x. [g x]) xs) = Inr (map (\<lambda>x. [p * (g x / inc)]) xs)"
proof -
  have "map (\<lambda>row. broadcast (*) [p] row) (map (\<lambda>x. [g x / inc]) xs) =
      map (\<lambda>x. Inr [p * (g x / inc)]) xs"
    by (simp add: broadcast_def)
  then have "sequence_result (map (\<lambda>row. broadcast (*) [p] row) (map (\<lambda>x. [g x / inc]) xs)) =
      Inr (map (\<lambda>x. [p * (g x / inc)]) xs)"
    by (simp only: sequence_result_map_Inr)
  then show ?thesis
    by (simp add: new_cases_a_day_def broadcast_rows_single bind_result_Inr)
qed

lemma transpose_single: "transpose [xs] = map (\<lambda>x. [x]) xs"
  by (induction xs) simp_all

lemma active_cases_single:
  assumes "0 < length v" and "length v \<le> length xs"
  shows "active_cases 1 (map (\<lambda>x. [g x]) xs) v =
     Inr (map (\<lambda>c. [c]) (take (length xs) (drop ((length v - 1) div 2)
            (convolve_full (map g xs) v))))"
proof -
  have col: "column (map (\<lambda>x. [g x]) xs) 0 = Inr (map g xs)"
    by (simp add: column_def list_all_iff comp_def)
  have "convolve_same (map g xs) v =
      Inr (take (length xs) (drop ((length v - 1) div 2) (convolve_full (map g xs) v)))"
    using assms by (auto simp: convolve_same_def Let_def)
  then show ?thesis
    by (simp add: active_cases_def col bind_result_Inr transpose_single)
qed

lemma convolve_full_nth:
  assumes "k < length a + length v - 1"
  shows "convolve_full a v ! k =
     sum_list (map (\<lambda>j. if j \<le> k \<and> k - j < length v then a ! j * v ! (k - j) else 0)
                   [0..<length a])"
proof -
  have k: "k < length [0..<length a + length v - 1]"
    using assms by simp
  have "[0..<length a + length v - 1] ! k = k"
    using assms by simp
  with nth_map [OF k, of "\<lambda>m. sum_list (map (\<lambda>j. if j \<le> m \<and> m - j < length v
      then a ! j * v ! (m - j) else 0) [0..<length a])"]
  show ?thesis
    unfolding convolve_full_def by (simp only:)
qed

lemma cumsum_first: "rows \<noteq> [] \<Longrightarrow> cumsum rows ! 0 = rows ! 0"
  by (cases rows) simp_all

text \<open>
  What \<open>evaluate_solution\<close> returns on a daily grid for a model of one compartment with
  integer lags and durations, when the window is not longer than the grid.
\<close>

lemma evaluate_solution_single:
  assumes m: "num_compartments m = 1" "incubation_period m = [inc]"
      "hospitalization_probability m = [hp]" "icu_probability m = [ip]"
      "death_probability m = [dp]"
      "hospitalization_duration m = PInt hdur" "icu_duration m = PInt idur"
      "hospitalization_lag_from_onset m = PInt hl" "icu_lag_from_onset m = PInt il"
      "death_lag_from_onset m = PInt dl"
    and sol: "Y0 m = Some y0" "SEIR_solution m = Some solution"
      "length y0 = 4" "\<forall>t. length (solution t) = 4"
    and win: "0 < hdur" "nat hdur \<le> n" "0 \<le> idur"
    and reach: "hl < int n" "il < int n" "dl < int n"
  shows "evaluate_solution m (daily_grid n) =
    Inr (map (\<lambda>j. [solution_row solution y0 (real j) ! 0]) [0..<n],
         map (\<lambda>j. [solution_row solution y0 (real j) ! 1]) [0..<n],
         map (\<lambda>j. [solution_row solution y0 (real j) ! 2]) [0..<n],
         map (\<lambda>j. [solution_row solution y0 (real j) ! 3]) [0..<n],
         map (\<lambda>c. [c]) (take n (drop ((nat hdur - 1) div 2)
           (convolve_full
              (map (\<lambda>j. hp * (solution_row solution y0 (real j - of_int hl) ! 1 / inc)) [0..<n])
              (replicate (nat hdur) 1)))),
         map (\<lambda>c. [c]) (take n (drop ((nat hdur - 1) div 2)
           (convolve_full
              (map (\<lambda>j. ip * (solution_row solution y0 (real j - of_int il) ! 2 / inc)) [0..<n])
              (replicate (nat hdur) 1)))),
         cumsum (map (\<lambda>j. [dp * (solution_row solution y0 (real j - of_int dl) ! 1 / inc)])
                   [0..<n]))"
proof -
  have len4: "length (solution_row solution y0 t) = 4" for t
    using sol(3,4) by (simp add: solution_row_def)
  have call: "call_SEIR_solution m (map (\<lambda>t. t - of_int k) (daily_grid n)) =
      Inr (map (\<lambda>j. solution_row solution y0 (real j - of_int k)) [0..<n])"
    if "k < int n" for k
  proof -
    have "0 < n"
      using win(1,2) by linarith
    moreover from that have "real_of_int k + 1 \<le> real n"
      by linarith
    ultimately show ?thesis
      by (simp add: call_SEIR_solution_def sol(1,2) lagged_query)
  qed
  have "0 < int n"
    using win(1,2) by linarith
  from call [OF this]
  have call0: "call_SEIR_solution m (daily_grid n) =
      Inr (map (\<lambda>j. solution_row solution y0 (real j)) [0..<n])"
    by simp
  have blk: "split4_block b (map (\<lambda>j. solution_row solution y0 (real j - lag)) [0..<n]) =
      Inr (map (\<lambda>j. [solution_row solution y0 (real j - lag) ! b]) [0..<n])"
    if "b < 4" for b lag
    using split4_block_rows4 [OF _ that,
        of "map (\<lambda>j. solution_row solution y0 (real j - lag)) [0..<n]"]
    by (simp add: list_all_iff len4 comp_def)
  have blk0: "split4_block b (map (\<lambda>j. solution_row solution y0 (real j)) [0..<n]) =
      Inr (map (\<lambda>j. [solution_row solution y0 (real j) ! b]) [0..<n])"
    if "b < 4" for b
    using blk [OF that, of 0] by simp
  have lag: "sub_lag (daily_grid n) (PInt k) = Inr (map (\<lambda>t. t - of_int k) (daily_grid n))" for k
    by simp
  have hw: "np_ones (PInt hdur) = Inr (replicate (nat hdur) 1)"
    using win(1) by simp
  have iw: "np_ones (PInt idur) = Inr (replicate (nat idur) 1)"
    using win(3) by simp
  have act: "active_cases 1 (map (\<lambda>j. [g j]) [0..<n]) (replicate (nat hdur) 1) =
      Inr (map (\<lambda>c. [c]) (take n (drop ((nat hdur - 1) div 2)
             (convolve_full (map g [0..<n]) (replicate (nat hdur) 1)))))" for g
    using active_cases_single [of "replicate (nat hdur) 1" "[0..<n]" g] win(1,2) by simp
  show ?thesis
    unfolding evaluate_solution_def
    by (simp only: call0 call [OF reach(1)] call [OF reach(2)] call [OF reach(3)] lag
        bind_result_Inr blk0 blk m broadcast_rows_single new_cases_a_day_single hw iw act Let_def)
qed


lemma ICU_active_spec_single:
  assumes m: "num_compartments m = 1" "incubation_period m = [inc]" "icu_probability m = [ip]"
      "icu_duration m = PInt idur" "icu_lag_from_onset m = PInt il"
    and sol: "Y0 m = Some y0" "SEIR_solution m = Some solution"
      "length y0 = 4" "\<forall>t. length (solution t) = 4"
    and win: "0 < idur" "nat idur \<le> n"
    and reach: "il < int n"
  shows "ICU_active_spec m (daily_grid n) =
    Inr (map (\<lambda>c. [c]) (take n (drop ((nat idur - 1) div 2)
           (convolve_full
              (map (\<lambda>j. ip * (solution_row solution y0 (real j - of_int il) ! 1 / inc)) [0..<n])
              (replicate (nat idur) 1)))))"
proof -
  have len4: "length (solution_row solution y0 t) = 4" for t
    using sol(3,4) by (simp add: solution_row_def)
  have call: "call_SEIR_solution m (map (\<lambda>t. t - of_int il) (daily_grid n)) =
      Inr (map (\<lambda>j. solution_row solution y0 (real j - of_int il)) [0..<n])"
  proof -
    have "0 < n"
      using win by linarith
    moreover from reach have "real_of_int il + 1 \<le> real n"
      by linarith
    ultimately show ?thesis
      by (simp add: call_SEIR_solution_def sol(1,2) lagged_query)
  qed
  have blk: "split4_block 1 (map (\<lambda>j. solution_row solution y0 (real j - lag)) [0..<n]) =
      Inr (map (\<lambda>j. [solution_row solution y0 (real j - lag) ! 1]) [0..<n])" for lag
    using split4_block_rows4 [of "map (\<lambda>j. solution_row solution y0 (real j - lag)) [0..<n]" 1]
    by (simp add: list_all_iff len4 comp_def)
  have lag: "sub_lag (daily_grid n) (PInt k) = Inr (map (\<lambda>t. t - of_int k) (daily_grid n))" for k
    by simp
  have iw: "np_ones (PInt idur) = Inr (replicate (nat idur) 1)"
    using win(1) by simp
  have act: "active_cases 1 (map (\<lambda>j. [g j]) [0..<n]) (replicate (nat idur) 1) =
      Inr (map (\<lambda>c. [c]) (take n (drop ((nat idur - 1) div 2)
             (convolve_full (map g [0..<n]) (replicate (nat idur) 1)))))" for g
    using active_cases_single [of "replicate (nat idur) 1" "[0..<n]" g] win by simp
  show ?thesis
    unfolding ICU_active_spec_def
    by (simp only: call lag bind_result_Inr blk m new_cases_a_day_single iw act)
qed

text \<open>
  Row \<open>k\<close> of a centred window of ones, as long as the window still hangs over the start
  of the series: the sum of the first entries of the series.
\<close>

lemma boxcar_head:
  fixes A :: "nat \<Rightarrow> real"
  assumes "k < w" and "k < n"
  shows "convolve_full (map A [0..<n]) (replicate w 1) ! k = (\<Sum>j<Suc k. A j)"
proof -
  have "convolve_full (map A [0..<n]) (replicate w 1) ! k =
      sum_list (map (\<lambda>j. if j \<le> k \<and> k - j < w then map A [0..<n] ! j * replicate w 1 ! (k - j)
                          else 0) [0..<n])"
    using assms by (simp add: convolve_full_nth)
  also have "map (\<lambda>j. if j \<le> k \<and> k - j < w then map A [0..<n] ! j * replicate w 1 ! (k - j)
                          else 0) [0..<n] = map (\<lambda>j. if j \<le> k then A j else 0) [0..<n]"
    using assms by (intro map_cong) auto
  also have "sum_list (map (\<lambda>j. if j \<le> k then A j else 0) [0..<n]) =
      (\<Sum>j<n. if j \<le> k then A j else 0)"
    by (rule sum_list_map_upt_sum)
  also have "\<dots> = (\<Sum>j\<in>{..<n} \<inter> {j. j \<le> k}. A j)"
    by (simp add: sum.If_cases)
  also have "{..<n} \<inter> {j. j \<le> k} = {..<Suc k}"
    using assms(2) by auto
  finally show ?thesis .
qed

lemma same_window_first_row:
  fixes A :: "nat \<Rightarrow> real"
  assumes "0 < w" and "w \<le> n"
  shows "map (\<lambda>c. [c]) (take n (drop ((w - 1) div 2)
           (convolve_full (map A [0..<n]) (replicate w 1)))) ! 0 =
         [\<Sum>j<Suc ((w - 1) div 2). A j]"
proof -
  have k: "(w - 1) div 2 < w" "(w - 1) div 2 < n"
    using assms by auto
  have len: "length (convolve_full (map A [0..<n]) (replicate w 1)) = n + w - 1"
    by (simp add: convolve_full_def)
  have "0 < length (take n (drop ((w - 1) div 2) (convolve_full (map A [0..<n]) (replicate w 1))))"
    using assms k by (simp add: len)
  then have "map (\<lambda>c. [c]) (take n (drop ((w - 1) div 2)
           (convolve_full (map A [0..<n]) (replicate w 1)))) ! 0 =
      [convolve_full (map A [0..<n]) (replicate w 1) ! ((w - 1) div 2)]"
    using assms k by (simp add: len)
  then show ?thesis
    by (simp only: boxcar_head [OF k])
qed


lemma sum_first_11:
  fixes f :: "nat \<Rightarrow> real"
  shows "(\<Sum>j<11. f j) = f 0 + f 1 + f 2 + f 3 + f 4 + f 5 + f 6 + f 7 + f 8 + f 9 + f 10"
  by (simp add: eval_nat_numeral)

lemma sum_first_5:
  fixes f :: "nat \<Rightarrow> real"
  shows "(\<Sum>j<5. f j) = f 0 + f 1 + f 2 + f 3 + f 4"
  by (simp add: eval_nat_numeral)

lemma sum_first_4:
  fixes f :: "nat \<Rightarrow> real"
  shows "(\<Sum>j<4. f j) = f 0 + f 1 + f 2 + f 3"
  by (simp add: eval_nat_numeral)

text \<open>
  The first rows of the derived series of the example run, whatever trajectory (of
  dimension four) the ODE primitive answers with.
\<close>

lemma example_run_first_rows:
  assumes "solve_ivp (seir_call example_state) 200 (Y0 example_state) = Inr solution"
    and "\<forall>t. length (solution t) = 4"
  shows "\<exists>r. example_run solve_ivp = Inr r \<and>
      deaths_of r ! 0 = [500 / 3] \<and>
      H_active_of r ! 0 = [100 + (\<Sum>k<5. solution (real k) ! 1) / 300] \<and>
      ICU_active_of r ! 0 = [55 / 3]"
proof -
  let ?y0 = "[990000, 5000, 5000, 0] :: real list"
  let ?m = "example_state\<lparr>SEIR_solution := Some solution\<rparr>"
  have run: "example_run solve_ivp = evaluate_solution ?m (daily_grid 200)"
    using assms(1)
    by (simp add: example_run_def example_init example_set_initial_state bind_result_Inr
        simulate_def)
  have ev: "evaluate_solution ?m (daily_grid 200) =
    Inr (map (\<lambda>j. [solution_row solution ?y0 (real j) ! 0]) [0..<200],
         map (\<lambda>j. [solution_row solution ?y0 (real j) ! 1]) [0..<200],
         map (\<lambda>j. [solution_row solution ?y0 (real j) ! 2]) [0..<200],
         map (\<lambda>j. [solution_row solution ?y0 (real j) ! 3]) [0..<200],
         map (\<lambda>c. [c]) (take 200 (drop ((nat 21 - 1) div 2)
           (convolve_full
              (map (\<lambda>j. 1 / 100 * (solution_row solution ?y0 (real j - of_int 6) ! 1 / 3)) [0..<200])
              (replicate (nat 21) 1)))),
         map (\<lambda>c. [c]) (take 200 (drop ((nat 21 - 1) div 2)
           (convolve_full
              (map (\<lambda>j. 1 / 1000 * (solution_row solution ?y0 (real j - of_int 21) ! 2 / 3)) [0..<200])
              (replicate (nat 21) 1)))),
         cumsum (map (\<lambda>j. [1 / 10 * (solution_row solution ?y0 (real j - of_int 27) ! 1 / 3)])
                   [0..<200]))"
    by (rule evaluate_solution_single [where idur = 7])
      (simp_all add: example_state_def example_model_def assms(2))
  have D: "cumsum (map (\<lambda>j. [1 / 10 * (solution_row solution ?y0 (real j - of_int 27) ! 1 / 3)])
      [0..<200]) ! 0 = [500 / 3]"
    by (subst cumsum_first) (simp_all add: solution_row_def)
  have H: "map (\<lambda>c. [c]) (take 200 (drop ((nat 21 - 1) div 2)
           (convolve_full
              (map (\<lambda>j. 1 / 100 * (solution_row solution ?y0 (real j - of_int 6) ! 1 / 3)) [0..<200])
              (replicate (nat 21) 1)))) ! 0 = [100 + (\<Sum>k<5. solution (real k) ! 1) / 300]"
    by (subst same_window_first_row)
      (simp_all add: sum_first_11 sum_first_5 solution_row_def)
  have I: "map (\<lambda>c. [c]) (take 200 (drop ((nat 21 - 1) div 2)
           (convolve_full
              (map (\<lambda>j. 1 / 1000 * (solution_row solution ?y0 (real j - of_int 21) ! 2 / 3)) [0..<200])
              (replicate (nat 21) 1)))) ! 0 = [55 / 3]"
    by (subst same_window_first_row) (simp_all add: sum_first_11 solution_row_def)
  show ?thesis
    unfolding run ev
    by (simp only: H_active_of_def ICU_active_of_def deaths_of_def prod.case D H I sum.inject
        simp_thms ex_simps) 
qed


lemma constant_solver_example:
  "constant_solver (seir_call example_state) 200 (Y0 example_state) =
     Inr (\<lambda>t. [990000, 5000, 5000, 0])"
  by (simp add: constant_solver_def example_state_def)

text \<open>
  The same model with an ICU duration of 21 days, the hospital duration, and the initial
  fractions 0.99, 0.006 and 0.004: the exposed and the infectious counts differ.
\<close>

lemma icu_block_first_rows:
  fixes m :: seir
  defines "m \<equiv> example_model\<lparr>icu_duration := PInt 21, Y0 := Some [990000, 6000, 4000, 0],
                               SEIR_solution := Some (\<lambda>t. [990000, 6000, 4000, 0])\<rparr>"
  shows "map_sum id (\<lambda>r. ICU_active_of r ! 0) (evaluate_solution m (daily_grid 200)) = Inr [44 / 3]"
    and "map_sum id (\<lambda>rows. rows ! 0) (ICU_active_spec m (daily_grid 200)) = Inr [22]"
proof -
  let ?y0 = "[990000, 6000, 4000, 0] :: real list"
  have ev: "evaluate_solution m (daily_grid 200) =
    Inr (map (\<lambda>j. [solution_row (\<lambda>t. ?y0) ?y0 (real j) ! 0]) [0..<200],
         map (\<lambda>j. [solution_row (\<lambda>t. ?y0) ?y0 (real j) ! 1]) [0..<200],
         map (\<lambda>j. [solution_row (\<lambda>t. ?y0) ?y0 (real j) ! 2]) [0..<200],
         map (\<lambda>j. [solution_row (\<lambda>t. ?y0) ?y0 (real j) ! 3]) [0..<200],
         map (\<lambda>c. [c]) (take 200 (drop ((nat 21 - 1) div 2)
           (convolve_full
              (map (\<lambda>j. 1 / 100 * (solution_row (\<lambda>t. ?y0) ?y0 (real j - of_int 6) ! 1 / 3))
                 [0..<200])
              (replicate (nat 21) 1)))),
         map (\<lambda>c. [c]) (take 200 (drop ((nat 21 - 1) div 2)
           (convolve_full
              (map (\<lambda>j. 1 / 1000 * (solution_row (\<lambda>t. ?y0) ?y0 (real j - of_int 21) ! 2 / 3))
                 [0..<200])
              (replicate (nat 21) 1)))),
         cumsum (map (\<lambda>j. [1 / 10 * (solution_row (\<lambda>t. ?y0) ?y0 (real j - of_int 27) ! 1 / 3)])
                   [0..<200]))"
    by (rule evaluate_solution_single [where idur = 21])
      (simp_all add: m_def example_model_def)
  have I: "map (\<lambda>c. [c]) (take 200 (drop ((nat 21 - 1) div 2)
           (convolve_full
              (map (\<lambda>j. 1 / 1000 * (solution_row (\<lambda>t. ?y0) ?y0 (real j - of_int 21) ! 2 / 3))
                 [0..<200])
              (replicate (nat 21) 1)))) ! 0 = [44 / 3]"
    by (subst same_window_first_row) (simp_all add: sum_first_11 solution_row_def)
  show "map_sum id (\<lambda>r. ICU_active_of r ! 0) (evaluate_solution m (daily_grid 200)) = Inr [44 / 3]"
    unfolding ev by (simp only: map_sum.simps ICU_active_of_def prod.case I)
  have sp: "ICU_active_spec m (daily_grid 200) =
    Inr (map (\<lambda>c. [c]) (take 200 (drop ((nat 21 - 1) div 2)
           (convolve_full
              (map (\<lambda>j. 1 / 1000 * (solution_row (\<lambda>t. ?y0) ?y0 (real j - of_int 21) ! 1 / 3))
                 [0..<200])
              (replicate (nat 21) 1)))))"
    by (rule ICU_active_spec_single) (simp_all add: m_def example_model_def)
  have S: "map (\<lambda>c. [c]) (take 200 (drop ((nat 21 - 1) div 2)
           (convolve_full
              (map (\<lambda>j. 1 / 1000 * (solution_row (\<lambda>t. ?y0) ?y0 (real j - of_int 21) ! 1 / 3))
                 [0..<200])
              (replicate (nat 21) 1)))) ! 0 = [22]"
    by (subst same_window_first_row) (simp_all add: sum_first_11 solution_row_def)
  show "map_sum id (\<lambda>rows. rows ! 0) (ICU_active_spec m (daily_grid 200)) = Inr [22]"
    unfolding sp by (simp only: map_sum.simps S)
qed

section \<open>The restriction function (C2)\<close>

text \<open>
  C2 says that a configured restriction function multiplies the infectivity matrix
  elementwise at every evaluation of the derivative law, so that a restriction that is
  always 0 stops new transmission. The code does not get that far: with a restriction
  function configured, \<open>__call__\<close> reads the unbound name \<open>restrictions_function\<close> and
  raises \<open>NameError\<close>. Here the example configuration is given the restriction that is
  0 everywhere and the derivative law is evaluated at \<open>t = 1\<close> on the initial state.
\<close>

theorem C2_restriction_raises_NameError:
  "bind_result (SEIR_init (example_args\<lparr> arg_restrictions_function := Some (\<lambda>t. RScalar 0) \<rparr>))
     (\<lambda>m. seir_call m 1 [990000, 5000, 5000, 0]) = Inl NameError"
  by (simp add: SEIR_init_def example_args_def init_compartments_def bind_result_def
      check_population_def init_contacts_def ones_def compute_infectivity_matrix_def
      vecmat_def ncols_def broadcast_def seir_call_def)

section \<open>The contact matrix at construction (C4)\<close>

text \<open>
  C4 says that every non-negative \<open>N \<times> N\<close> contact matrix is accepted. The test
  \<open>if contacts_matrix:\<close> takes the truth value of the array, which NumPy refuses for an
  array of more than one element: with two compartments and the contact matrix
  \<open>[[1, 2], [3, 4]]\<close> the construction raises \<open>ValueError\<close>.
\<close>

theorem C4_square_contacts_matrix_raises:
  "SEIR_init (example_args\<lparr> arg_compartments := Some [''young'', ''old''],
                             arg_population := PArr [10, 20],
                             arg_contacts_matrix := Some [[1, 2], [3, 4]] \<rparr>) = Inl ValueError"
  by (simp add: SEIR_init_def example_args_def init_compartments_def bind_result_def
      check_population_def init_contacts_def array_truth_def)

section \<open>The initial state (C5)\<close>

text \<open>
  C5 says that \<open>set_initial_state\<close> accepts raw counts given as scalars and rejects a
  vector whose size is not the number of compartments. On the model of the example
  configuration (one compartment), the raw scalar counts 990000, 5000 and 5000 raise
  \<open>AttributeError\<close> (the method \<open>_fix_sizes\<close> does not exist), and with \<open>probabilities\<close> set
  a vector of three fractions is not rejected: it is broadcast against the population and
  the stored state has six entries.
\<close>

theorem C5_raw_scalar_counts_raise:
  "bind_result (SEIR_init example_args)
     (\<lambda>m. set_initial_state m (PInt 990000) (PInt 5000) (PInt 5000) False) = Inl AttributeError
   \<and> bind_result (SEIR_init example_args)
       (\<lambda>m. map_sum id Y0
              (set_initial_state m (PArr [1 / 2, 3 / 10, 1 / 5]) (PFloat 0) (PFloat 0) True))
      = Inr (Some [500000, 300000, 200000, 0, 0, 0])"
  by (simp add: example_init bind_result_def set_initial_state_def broadcast_def
      example_model_def)

section \<open>The infectivity matrix (C9)\<close>

text \<open>
  C9 says that the infectivity matrix is one scalar multiple of the contact matrix, also
  with per-compartment infectious periods. The code divides by the vector
  \<open>infectious_period\<close>, so the factor of column \<open>j\<close> carries \<open>1 / infectious_period\<^sub>j\<close>.
  With two age groups whose infectious periods are 7 and 14 days and no contact matrix
  given (all contacts 1), the two columns of the infectivity matrix are \<open>23 / 140\<close> and
  \<open>23 / 280\<close>: no single factor scales the all-ones matrix to it.
\<close>

theorem C9_two_factors_counterexample:
  "init_contacts 2 (arg_contacts_matrix two_groups_args) = Inr [[1, 1], [1, 1]]
   \<and> map_sum id infectivity_matrix (SEIR_init two_groups_args) =
       Inr [[23 / 140, 23 / 280], [23 / 140, 23 / 280]]
   \<and> \<not> (\<exists>c :: real. [[23 / 140, 23 / 280], [23 / 140, 23 / 280]] =
            map (map (\<lambda>x. c * x)) [[1, 1], [1, 1]])"
proof -
  have "init_contacts 2 (arg_contacts_matrix two_groups_args) = Inr [[1, 1], [1, 1]]"
    by (simp add: two_groups_args_def example_args_def init_contacts_def ones_def numeral_2_eq_2)
  moreover have "map_sum id infectivity_matrix (SEIR_init two_groups_args) =
      Inr [[23 / 140, 23 / 280], [23 / 140, 23 / 280]]"
    by (simp add: two_groups_init) (simp add: two_groups_model_def)
  moreover have "\<not> (\<exists>c :: real. [[23 / 140, 23 / 280], [23 / 140, 23 / 280]] =
      map (map (\<lambda>x. c * x)) [[1, 1], [1, 1]])"
    by auto
  ultimately show ?thesis by blast
qed

text \<open>
  C9 as amended: for every model that the constructor returns, with \<open>C\<close> the contact
  matrix the constructor uses (the one given, or all ones), entry \<open>[i][j]\<close> of the
  infectivity matrix is \<open>C[i][j]\<close> times
  \<open>1 / infectious_period\<^sub>j * initial_R0 * \<Sum> population / \<Sum> (population @ C)\<close>. The
  factor is common to a column; it is one scalar for the whole matrix when the infectious
  periods are all equal.
\<close>

theorem C9_infectivity_entries:
  assumes "SEIR_init a = Inr m"
    and "init_contacts (num_compartments m) (arg_contacts_matrix a) = Inr C"
    and "i < num_compartments m" and "j < num_compartments m"
  shows "infectivity_matrix m ! i ! j =
     1 / infectious_period m ! j * arg_initial_R0 a * sum_list (population m)
       / (\<Sum>l<num_compartments m. \<Sum>k<num_compartments m. population m ! k * C ! k ! l)
       * C ! i ! j"
proof -
  define n where "n = num_compartments m"
  from SEIR_init_Inr [OF assms(1)] assms(2)
  have im: "compute_infectivity_matrix (infectious_period m) (arg_initial_R0 a) (population m) C
              = Inr (infectivity_matrix m)"
    by auto
  note sz = SEIR_init_sizes [OF assms(1)]
  from init_contacts_shape [OF assms(2)]
  have C: "length C = n" "list_all (\<lambda>row. length row = n) C"
    by (auto simp: n_def)
  then have rows: "\<And>k. k < n \<Longrightarrow> length (C ! k) = n"
    by (auto simp: list_all_length)
  have "0 < n" using sz(1) by (simp add: n_def)
  with C rows have nc: "ncols C = n"
    by (cases C) (auto simp: ncols_def)
  have total: "sum_list (map (\<lambda>j. sum_list (map2 (\<lambda>x row. x * row ! j) (population m) C))
                   [0..<ncols C])
      = (\<Sum>l<n. \<Sum>k<n. population m ! k * C ! k ! l)"
    using sz(2) C(1) by (simp add: nc sum_list_map_upt_sum sum_list_map2_sum n_def)
  have "length (population m) = length C"
    "list_all (\<lambda>row. length row = length (infectious_period m)) C"
    using sz C by (simp_all add: n_def)
  from compute_infectivity_matrix_eq [OF this, of "arg_initial_R0 a"] im
  have "infectivity_matrix m =
      map (\<lambda>row. map2 (*) (map (\<lambda>p. 1 / p * arg_initial_R0 a * sum_list (population m) /
         (\<Sum>l<n. \<Sum>k<n. population m ! k * C ! k ! l)) (infectious_period m)) row) C"
    by (simp only: total sum.inject)
  then show ?thesis
    using assms(3,4) C(1) rows [of i] sz(4) by (simp add: n_def)
qed

theorem C9_infectivity_entries_witness:
  "SEIR_init two_groups_args = Inr two_groups_model
   \<and> infectivity_matrix two_groups_model ! 0 ! 1 = 1 / 14 * (23 / 10) * 3500000 / 7000000 * 1"
proof -
  have i: "SEIR_init two_groups_args = Inr two_groups_model"
    by (rule two_groups_init)
  have c: "init_contacts (num_compartments two_groups_model) (arg_contacts_matrix two_groups_args)
             = Inr [[1, 1], [1, 1]]"
    by (simp add: two_groups_model_def two_groups_args_def example_args_def init_contacts_def
        ones_def numeral_2_eq_2)
  have "(0::nat) < num_compartments two_groups_model" "(1::nat) < num_compartments two_groups_model"
    by (simp_all add: two_groups_model_def)
  from C9_infectivity_entries [OF i c this] i show ?thesis
    by (simp add: two_groups_model_def two_groups_args_def example_args_def numeral_2_eq_2)
qed

section \<open>Querying the solution (C6)\<close>

text \<open>
  C6 says that querying the stored solution with any ascending time array answers the
  initial state \<open>Y0\<close> for every negative time, as a defined extension and not as an error,
  and the dense solution for every time from 0 on, in the order of the query times. The
  closure builds the \<open>Y0\<close> rows for that purpose, but it evaluates the dense solution on the
  selection of the non-negative times before, also when the selection is empty: on the
  model of the example, after \<open>simulate\<close>, the ascending query \<open>[-2, -1]\<close> raises
  \<open>ValueError\<close>, where the query \<open>[-2, -1, 0, 1]\<close> answers the four rows that C6 describes.
  The ODE primitive is stood in for by the trajectory \<open>t \<mapsto> [t, 2 t, 3 t, 4 t]\<close>, so that the
  rows of the dense solution can be told apart.
\<close>

theorem C6_all_negative_query_raises:
  "bind_result
     (simulate (\<lambda>f T y. Inr (\<lambda>t. [t, 2 * t, 3 * t, 4 * t])) example_state 200)
     (\<lambda>model. call_SEIR_solution model [-2, -1]) = Inl ValueError
   \<and> bind_result
       (simulate (\<lambda>f T y. Inr (\<lambda>t. [t, 2 * t, 3 * t, 4 * t])) example_state 200)
       (\<lambda>model. call_SEIR_solution model [-2, -1, 0, 1])
      = Inr [[990000, 5000, 5000, 0], [990000, 5000, 5000, 0], [0, 0, 0, 0], [1, 2, 3, 4]]"
  by (simp add: simulate_def bind_result_def call_SEIR_solution_def simulate_SEIR_solution_def
      solution_sol_def example_state_def Let_def)

section \<open>The derivative law (C7, C8)\<close>

text \<open>
  C7: for a model constructed without restriction function and without imported-cases
  function, in whatever state its initial condition and solution are, the derivative
  law applied to a state vector of four blocks of \<open>N\<close> entries returns, and what it returns
  is the rate vector of the specification: \<open>dS\<^sub>i = - (S\<^sub>i / population\<^sub>i) * (row i of the
  infectivity matrix \<cdot> I)\<close>, \<open>dE\<^sub>i = - dS\<^sub>i - E\<^sub>i / incubation_period\<^sub>i\<close>,
  \<open>dI\<^sub>i = E\<^sub>i / incubation_period\<^sub>i - I\<^sub>i / infectious_period\<^sub>i\<close> and
  \<open>dR\<^sub>i = I\<^sub>i / infectious_period\<^sub>i\<close>. The result does not depend on \<open>t\<close>.
\<close>

theorem C7_derivative_law:
  assumes "SEIR_init a = Inr m"
    and "arg_restrictions_function a = None"
    and "arg_imported_cases_function a = None"
    and "length Y = 4 * num_compartments m"
  shows "seir_call (m\<lparr>Y0 := y, SEIR_solution := s\<rparr>) t Y = Inr (derivative_law_spec m Y)"
proof -
  note sz = SEIR_init_sizes [OF assms(1)]
  from SEIR_init_Inr [OF assms(1)] assms(2,3)
  have none: "restrictions_function m = None" "imported_cases_function m = None"
    by auto
  from seir_call_rates [OF none(1) sz(2,3,4,8,9) assms(4), of t]
  show ?thesis by (simp add: none(2) seir_call_state_independent)
qed

theorem C7_derivative_law_witness:
  "SEIR_init example_args = Inr example_model
   \<and> seir_call (example_model\<lparr>Y0 := Some [990000, 5000, 5000, 0], SEIR_solution := None\<rparr>) 0
        [990000, 5000, 5000, 0]
      = Inr [- (11385 / 7), 11385 / 7 - 5000 / 3, 5000 / 3 - 5000 / 7, 5000 / 7]"
proof -
  have "arg_restrictions_function example_args = None"
    "arg_imported_cases_function example_args = None"
    "length [990000, 5000, 5000, 0 :: real] = 4 * num_compartments example_model"
    by (simp_all add: example_args_def example_model_def)
  from C7_derivative_law [OF example_init this] example_init show ?thesis
    by (simp add: derivative_law_spec_def spec_dS_def spec_dE_def spec_dI_def spec_dR_def
        example_model_def)
qed

text \<open>
  C8: for a model constructed without restriction function and a state vector of four
  blocks of \<open>N\<close> entries, the derivative law returns, and for every compartment \<open>i\<close>:
  without imported-cases function the four rates of the compartment sum to zero; with an
  imported-cases function whose output at \<open>t\<close> is three vectors \<open>(DS, DE, DI)\<close> of length
  \<open>N\<close>, the rates of S, E and I are those of the closed law plus \<open>DS\<^sub>i\<close>, \<open>DE\<^sub>i\<close> and
  \<open>DI\<^sub>i\<close>, the rate of R is unchanged, and the four rates sum to \<open>DS\<^sub>i + DE\<^sub>i + DI\<^sub>i\<close>:
  nothing is subtracted anywhere to compensate.
\<close>

theorem C8_rates_balance:
  assumes "SEIR_init a = Inr m"
    and "arg_restrictions_function a = None"
    and "length Y = 4 * num_compartments m"
    and "i < num_compartments m"
  shows "(arg_imported_cases_function a = None \<longrightarrow>
           (\<exists>dY. seir_call (m\<lparr>Y0 := y, SEIR_solution := s\<rparr>) t Y = Inr dY \<and>
              dY ! i + dY ! (num_compartments m + i) + dY ! (2 * num_compartments m + i)
                + dY ! (3 * num_compartments m + i) = 0))
       \<and> (\<forall>g DS DE DI.
            arg_imported_cases_function a = Some g \<and> g t = (DS, DE, DI) \<and>
            length DS = num_compartments m \<and> length DE = num_compartments m \<and>
            length DI = num_compartments m \<longrightarrow>
           (\<exists>dY. seir_call (m\<lparr>Y0 := y, SEIR_solution := s\<rparr>) t Y = Inr dY \<and>
              dY ! i = spec_dS m Y i + DS ! i \<and>
              dY ! (num_compartments m + i) = spec_dE m Y i + DE ! i \<and>
              dY ! (2 * num_compartments m + i) = spec_dI m Y i + DI ! i \<and>
              dY ! (3 * num_compartments m + i) = spec_dR m Y i \<and>
              dY ! i + dY ! (num_compartments m + i) + dY ! (2 * num_compartments m + i)
                + dY ! (3 * num_compartments m + i) = DS ! i + DE ! i + DI ! i))"
proof -
  define n where "n = num_compartments m"
  note sz = SEIR_init_sizes [OF assms(1)]
  from SEIR_init_Inr [OF assms(1)] assms(2)
  have r: "restrictions_function m = None"
    and imp: "imported_cases_function m = arg_imported_cases_function a"
    by auto
  note rates = seir_call_rates [OF r sz(2,3,4,8,9) assms(3), of t]
  have zero: "spec_dS m Y i + spec_dE m Y i + spec_dI m Y i + spec_dR m Y i = 0"
    by (simp add: spec_dE_def spec_dI_def spec_dR_def)
  have closed: "arg_imported_cases_function a = None \<longrightarrow>
      (\<exists>dY. seir_call (m\<lparr>Y0 := y, SEIR_solution := s\<rparr>) t Y = Inr dY \<and>
         dY ! i + dY ! (num_compartments m + i) + dY ! (2 * num_compartments m + i)
           + dY ! (3 * num_compartments m + i) = 0)"
  proof
    assume "arg_imported_cases_function a = None"
    with rates imp have "seir_call (m\<lparr>Y0 := y, SEIR_solution := s\<rparr>) t Y =
        Inr (derivative_law_spec m Y)"
      by (simp add: seir_call_state_independent)
    moreover have "derivative_law_spec m Y ! i + derivative_law_spec m Y ! (num_compartments m + i)
        + derivative_law_spec m Y ! (2 * num_compartments m + i)
        + derivative_law_spec m Y ! (3 * num_compartments m + i) = 0"
      using zero by (simp only: derivative_law_spec_nth [OF assms(4)])
    ultimately show "\<exists>dY. seir_call (m\<lparr>Y0 := y, SEIR_solution := s\<rparr>) t Y = Inr dY \<and>
         dY ! i + dY ! (num_compartments m + i) + dY ! (2 * num_compartments m + i)
           + dY ! (3 * num_compartments m + i) = 0"
      by blast
  qed
  have "opened": "\<exists>dY. seir_call (m\<lparr>Y0 := y, SEIR_solution := s\<rparr>) t Y = Inr dY \<and>
              dY ! i = spec_dS m Y i + DS ! i \<and>
              dY ! (num_compartments m + i) = spec_dE m Y i + DE ! i \<and>
              dY ! (2 * num_compartments m + i) = spec_dI m Y i + DI ! i \<and>
              dY ! (3 * num_compartments m + i) = spec_dR m Y i \<and>
              dY ! i + dY ! (num_compartments m + i) + dY ! (2 * num_compartments m + i)
                + dY ! (3 * num_compartments m + i) = DS ! i + DE ! i + DI ! i"
    if g: "arg_imported_cases_function a = Some g" "g t = (DS, DE, DI)"
      and len: "length DS = num_compartments m" "length DE = num_compartments m"
        "length DI = num_compartments m"
    for g DS DE DI
  proof -
    define dY where "dY = map2 (+) (map (spec_dS m Y) [0..<n]) DS @
        map2 (+) (map (spec_dE m Y) [0..<n]) DE @ map2 (+) (map (spec_dI m Y) [0..<n]) DI @
        map (spec_dR m Y) [0..<n]"
    have call: "seir_call (m\<lparr>Y0 := y, SEIR_solution := s\<rparr>) t Y = Inr dY"
      using rates imp g len
      by (simp add: seir_call_state_independent iadd_same bind_result_Inr dY_def n_def)
    have i: "i < n" using assms(4) by (simp add: n_def)
    have nth: "dY ! i = spec_dS m Y i + DS ! i"
      "dY ! (n + i) = spec_dE m Y i + DE ! i"
      "dY ! (2 * n + i) = spec_dI m Y i + DI ! i"
      "dY ! (3 * n + i) = spec_dR m Y i"
      using i len by (simp_all add: dY_def nth_append n_def)
    have "dY ! i + dY ! (n + i) + dY ! (2 * n + i) + dY ! (3 * n + i) = DS ! i + DE ! i + DI ! i"
      using zero by (simp only: nth)
    with call nth show ?thesis unfolding n_def by blast
  qed
  from closed "opened" show ?thesis by blast
qed

theorem C8_rates_balance_witness:
  "(\<exists>dY. seir_call (example_model\<lparr>Y0 := None, SEIR_solution := None\<rparr>) 0
            [990000, 5000, 5000, 0] = Inr dY \<and>
          dY ! 0 + dY ! 1 + dY ! 2 + dY ! 3 = 0)
   \<and> (\<exists>dY. seir_call (example_model\<lparr>imported_cases_function := Some (\<lambda>t. ([0], [10], [0])),
                                     Y0 := None, SEIR_solution := None\<rparr>) 0
            [990000, 5000, 5000, 0] = Inr dY \<and>
          dY ! 0 + dY ! 1 + dY ! 2 + dY ! 3 = 10)"
proof -
  let ?Y = "[990000, 5000, 5000, 0] :: real list"
  let ?g = "\<lambda>t :: real. ([0], [10], [0]) :: real list \<times> real list \<times> real list"
  have h: "arg_restrictions_function example_args = None"
    "length ?Y = 4 * num_compartments example_model"
    "(0::nat) < num_compartments example_model"
    by (simp_all add: example_args_def example_model_def)
  have n: "arg_imported_cases_function example_args = None"
    by (simp add: example_args_def)
  from C8_rates_balance [OF example_init h, of None None 0, THEN conjunct1, rule_format, OF n]
  have A: "\<exists>dY. seir_call (example_model\<lparr>Y0 := None, SEIR_solution := None\<rparr>) 0 ?Y = Inr dY \<and>
      dY ! 0 + dY ! 1 + dY ! 2 + dY ! 3 = 0"
    by (simp add: example_model_def)
  let ?a = "example_args\<lparr>arg_imported_cases_function := Some ?g\<rparr>"
  let ?m = "example_model\<lparr>imported_cases_function := Some ?g\<rparr>"
  have ig: "SEIR_init ?a = Inr ?m"
    by (simp add: SEIR_init_def example_args_def example_model_def init_compartments_def
        bind_result_def check_population_def init_contacts_def ones_def
        compute_infectivity_matrix_def vecmat_def ncols_def broadcast_def)
  have hg: "arg_restrictions_function ?a = None" "length ?Y = 4 * num_compartments ?m"
    "(0::nat) < num_compartments ?m"
    by (simp_all add: example_args_def example_model_def)
  have g: "arg_imported_cases_function ?a = Some ?g \<and> ?g 0 = ([0], [10], [0]) \<and>
      length [0::real] = num_compartments ?m \<and> length [10::real] = num_compartments ?m \<and>
      length [0::real] = num_compartments ?m"
    by (simp add: example_model_def)
  from C8_rates_balance [OF ig hg, of None None 0, THEN conjunct2, rule_format, OF g]
  have B: "\<exists>dY. seir_call (?m\<lparr>Y0 := None, SEIR_solution := None\<rparr>) 0 ?Y = Inr dY \<and>
      dY ! 0 + dY ! 1 + dY ! 2 + dY ! 3 = 10"
    by (auto simp add: example_model_def)
  from A B show ?thesis by blast
qed

section \<open>The parameters at construction (C3)\<close>

text \<open>
  C3 says that every scalar-or-vector parameter, the population included, accepts a
  scalar and broadcasts it to the \<open>N\<close> compartments. The constructor guards the population
  with \<open>assert self.num_compartments == 1\<close> when it is a scalar: with two compartments and
  the scalar population of the example, construction fails.
\<close>

theorem C3_scalar_population_counterexample:
  "SEIR_init (example_args\<lparr>arg_compartments := Some [''1-5'', ''5-10'']\<rparr>) = Inl AssertionError"
  by (simp add: SEIR_init_def example_args_def init_compartments_def bind_result_def
      check_population_def)

text \<open>
  C3 as amended, for the arguments \<open>incubation_period\<close>, \<open>infectious_period\<close>,
  \<open>hospitalization_probability\<close>, \<open>icu_probability\<close>, \<open>death_probability\<close> and \<open>population\<close>,
  with \<open>N\<close> the number of compartments:
  \<^item> what a successful construction stores for each of them is the argument normalised to
    length \<open>N\<close>: a scalar repeated \<open>N\<close> times, a vector of length \<open>N\<close> as it is;
  \<^item> construction fails with \<open>AssertionError\<close> when one of them is a vector whose length is
    not \<open>N\<close>, and when the population is a scalar while \<open>N \<noteq> 1\<close>;
  \<^item> when none of that is the case and no contact matrix is given, construction succeeds;
  \<^item> \<open>set_initial_state\<close> and \<open>simulate\<close> leave the six stored vectors as they are.
\<close>

theorem C3_parameters_at_construction:
  "(\<forall>m. SEIR_init a = Inr m \<longrightarrow>
      num_compartments m = length (init_compartments a) \<and>
      normalised (num_compartments m) (arg_incubation_period a) (incubation_period m) \<and>
      normalised (num_compartments m) (arg_infectious_period a) (infectious_period m) \<and>
      normalised (num_compartments m) (arg_hospitalization_probability a)
        (hospitalization_probability m) \<and>
      normalised (num_compartments m) (arg_icu_probability a) (icu_probability m) \<and>
      normalised (num_compartments m) (arg_death_probability a) (death_probability m) \<and>
      normalised (num_compartments m) (arg_population a) (population m))
   \<and> (wrong_size (length (init_compartments a)) (arg_incubation_period a) \<or>
      wrong_size (length (init_compartments a)) (arg_infectious_period a) \<or>
      wrong_size (length (init_compartments a)) (arg_hospitalization_probability a) \<or>
      wrong_size (length (init_compartments a)) (arg_icu_probability a) \<or>
      wrong_size (length (init_compartments a)) (arg_death_probability a) \<or>
      wrong_size (length (init_compartments a)) (arg_population a) \<or>
      is_scalar (arg_population a) \<and> length (init_compartments a) \<noteq> 1
      \<longrightarrow> SEIR_init a = Inl AssertionError)
   \<and> (\<not> wrong_size (length (init_compartments a)) (arg_incubation_period a) \<and>
      \<not> wrong_size (length (init_compartments a)) (arg_infectious_period a) \<and>
      \<not> wrong_size (length (init_compartments a)) (arg_hospitalization_probability a) \<and>
      \<not> wrong_size (length (init_compartments a)) (arg_icu_probability a) \<and>
      \<not> wrong_size (length (init_compartments a)) (arg_death_probability a) \<and>
      \<not> wrong_size (length (init_compartments a)) (arg_population a) \<and>
      \<not> (is_scalar (arg_population a) \<and> length (init_compartments a) \<noteq> 1) \<and>
      arg_contacts_matrix a = None
      \<longrightarrow> (\<exists>m. SEIR_init a = Inr m))
   \<and> (\<forall>m S E I p m'. set_initial_state m S E I p = Inr m' \<longrightarrow>
        incubation_period m' = incubation_period m \<and>
        infectious_period m' = infectious_period m \<and>
        hospitalization_probability m' = hospitalization_probability m \<and>
        icu_probability m' = icu_probability m \<and>
        death_probability m' = death_probability m \<and>
        population m' = population m)
   \<and> (\<forall>solve_ivp m T m'. simulate solve_ivp m T = Inr m' \<longrightarrow>
        incubation_period m' = incubation_period m \<and>
        infectious_period m' = infectious_period m \<and>
        hospitalization_probability m' = hospitalization_probability m \<and>
        icu_probability m' = icu_probability m \<and>
        death_probability m' = death_probability m \<and>
        population m' = population m)"
proof -
  define n where "n = length (init_compartments a)"
  have stored: "num_compartments m = n \<and>
      normalised (num_compartments m) (arg_incubation_period a) (incubation_period m) \<and>
      normalised (num_compartments m) (arg_infectious_period a) (infectious_period m) \<and>
      normalised (num_compartments m) (arg_hospitalization_probability a)
        (hospitalization_probability m) \<and>
      normalised (num_compartments m) (arg_icu_probability a) (icu_probability m) \<and>
      normalised (num_compartments m) (arg_death_probability a) (death_probability m) \<and>
      normalised (num_compartments m) (arg_population a) (population m)"
    if "SEIR_init a = Inr m" for m
    using SEIR_init_Inr [OF that] by (auto simp: n_def intro: fix_size_normalised)
  note fs = fix_size_cases [of n "arg_incubation_period a"]
    fix_size_cases [of n "arg_infectious_period a"]
    fix_size_cases [of n "arg_hospitalization_probability a"]
    fix_size_cases [of n "arg_icu_probability a"]
    fix_size_cases [of n "arg_death_probability a"]
    fix_size_cases [of n "arg_population a"]
    check_population_cases [of n "arg_population a"]
  have rejected: "SEIR_init a = Inl AssertionError"
    if "wrong_size n (arg_incubation_period a) \<or> wrong_size n (arg_infectious_period a) \<or>
      wrong_size n (arg_hospitalization_probability a) \<or> wrong_size n (arg_icu_probability a) \<or>
      wrong_size n (arg_death_probability a) \<or> wrong_size n (arg_population a) \<or>
      is_scalar (arg_population a) \<and> n \<noteq> 1"
    unfolding SEIR_init_def Let_def n_def [symmetric]
    apply (rule bind_result_AssertionError, use fs in blast)
    apply (rule bind_result_AssertionError, use fs in blast)
    apply (rule bind_result_AssertionError, use fs in blast)
    apply (rule bind_result_AssertionError, use fs in blast)
    apply (rule bind_result_AssertionError, use fs in blast)
    apply (rule bind_result_AssertionError, use fs in blast)
    apply (rule bind_result_AssertionError, use fs in blast)
    using that fs apply auto
    done
  have accepted: "\<exists>m. SEIR_init a = Inr m"
    if ok: "\<not> wrong_size n (arg_incubation_period a)" "\<not> wrong_size n (arg_infectious_period a)"
      "\<not> wrong_size n (arg_hospitalization_probability a)" "\<not> wrong_size n (arg_icu_probability a)"
      "\<not> wrong_size n (arg_death_probability a)" "\<not> wrong_size n (arg_population a)"
      "\<not> (is_scalar (arg_population a) \<and> n \<noteq> 1)"
      and none: "arg_contacts_matrix a = None"
  proof -
    from ok fs obtain incubation infectious hprob iprob dprob pop where
      v: "fix_size n (arg_incubation_period a) = Inr incubation"
        "fix_size n (arg_infectious_period a) = Inr infectious"
        "fix_size n (arg_hospitalization_probability a) = Inr hprob"
        "fix_size n (arg_icu_probability a) = Inr iprob"
        "fix_size n (arg_death_probability a) = Inr dprob"
        "fix_size n (arg_population a) = Inr pop"
      and cp: "check_population n (arg_population a) = Inr ()"
      by blast
    have c: "init_contacts n (arg_contacts_matrix a) = Inr (ones n n)"
      by (simp add: none init_contacts_def)
    have "length pop = length (ones n n)"
      "list_all (\<lambda>row. length row = length infectious) (ones n n)"
      using v [THEN fix_size_length] by (simp_all add: ones_def list_all_iff)
    from compute_infectivity_matrix_eq [OF this, of "arg_initial_R0 a"]
    obtain im where "compute_infectivity_matrix infectious (arg_initial_R0 a) pop (ones n n) = Inr im"
      by blast
    with v cp c show ?thesis
      unfolding SEIR_init_def Let_def n_def [symmetric] by (simp add: bind_result_Inr)
  qed
  have kept_set: "incubation_period m' = incubation_period m \<and>
        infectious_period m' = infectious_period m \<and>
        hospitalization_probability m' = hospitalization_probability m \<and>
        icu_probability m' = icu_probability m \<and>
        death_probability m' = death_probability m \<and>
        population m' = population m"
    if "set_initial_state m S E I p = Inr m'" for m S E I p m'
    by (subst (1 2 3 4 5 6) set_initial_state_keeps [OF that]) simp
  have kept_sim: "incubation_period m' = incubation_period m \<and>
        infectious_period m' = infectious_period m \<and>
        hospitalization_probability m' = hospitalization_probability m \<and>
        icu_probability m' = icu_probability m \<and>
        death_probability m' = death_probability m \<and>
        population m' = population m"
    if "simulate solve_ivp m T = Inr m'" for solve_ivp m T m'
    by (subst (1 2 3 4 5 6) simulate_keeps [OF that]) simp
  from stored rejected accepted kept_set kept_sim show ?thesis
    unfolding n_def by blast
qed

theorem C3_parameters_at_construction_witness:
  "SEIR_init two_groups_args = Inr two_groups_model
   \<and> incubation_period two_groups_model = replicate 2 3
   \<and> infectious_period two_groups_model = [7, 14]
   \<and> population two_groups_model = [2500000, 1000000]
   \<and> SEIR_init (two_groups_args\<lparr>arg_death_probability := PArr [1 / 10]\<rparr>) = Inl AssertionError
   \<and> (\<exists>m. SEIR_init example_args = Inr m)
   \<and> set_initial_state example_model (PFloat (99 / 100)) (PFloat (1 / 200)) (PFloat (1 / 200)) True
       = Inr example_state
   \<and> population example_state = population example_model
   \<and> simulate constant_solver example_state 200 =
       Inr (example_state\<lparr>SEIR_solution := Some (\<lambda>t. [990000, 5000, 5000, 0])\<rparr>)
   \<and> population (example_state\<lparr>SEIR_solution := Some (\<lambda>t. [990000, 5000, 5000, 0])\<rparr>)
       = population example_state"
proof -
  from C3_parameters_at_construction [of two_groups_args, THEN conjunct1, rule_format,
      OF two_groups_init]
  have A: "incubation_period two_groups_model = replicate 2 3"
    "infectious_period two_groups_model = [7, 14]"
    "population two_groups_model = [2500000, 1000000]"
    by (simp_all add: normalised_def two_groups_args_def example_args_def)
  let ?bad = "two_groups_args\<lparr>arg_death_probability := PArr [1 / 10]\<rparr>"
  have "wrong_size (length (init_compartments ?bad)) (arg_death_probability ?bad)"
    by (simp add: wrong_size_def init_compartments_def two_groups_args_def example_args_def)
  with C3_parameters_at_construction [of ?bad, THEN conjunct2, THEN conjunct1]
  have B: "SEIR_init ?bad = Inl AssertionError"
    by blast
  have "\<not> wrong_size (length (init_compartments example_args)) (arg_incubation_period example_args) \<and>
      \<not> wrong_size (length (init_compartments example_args)) (arg_infectious_period example_args) \<and>
      \<not> wrong_size (length (init_compartments example_args))
          (arg_hospitalization_probability example_args) \<and>
      \<not> wrong_size (length (init_compartments example_args)) (arg_icu_probability example_args) \<and>
      \<not> wrong_size (length (init_compartments example_args)) (arg_death_probability example_args) \<and>
      \<not> wrong_size (length (init_compartments example_args)) (arg_population example_args) \<and>
      \<not> (is_scalar (arg_population example_args) \<and> length (init_compartments example_args) \<noteq> 1) \<and>
      arg_contacts_matrix example_args = None"
    by (simp add: wrong_size_def init_compartments_def example_args_def)
  with C3_parameters_at_construction [of example_args, THEN conjunct2, THEN conjunct2,
      THEN conjunct1]
  have C: "\<exists>m. SEIR_init example_args = Inr m"
    by blast
  from C3_parameters_at_construction [of example_args, THEN conjunct2, THEN conjunct2,
      THEN conjunct2, THEN conjunct1, rule_format, OF example_set_initial_state]
  have D: "population example_state = population example_model"
    by simp
  have sim: "simulate constant_solver example_state 200 =
      Inr (example_state\<lparr>SEIR_solution := Some (\<lambda>t. [990000, 5000, 5000, 0])\<rparr>)"
    by (simp add: simulate_def constant_solver_def example_state_def bind_result_def)
  from C3_parameters_at_construction [of example_args, THEN conjunct2, THEN conjunct2,
      THEN conjunct2, THEN conjunct2, rule_format, OF sim]
  have E: "population (example_state\<lparr>SEIR_solution := Some (\<lambda>t. [990000, 5000, 5000, 0])\<rparr>)
      = population example_state"
    by simp
  from two_groups_init A B C example_set_initial_state D sim E show ?thesis
    by blast
qed

section \<open>Active ICU occupancy (C1)\<close>

text \<open>
  C1 says that the active-ICU series is the centred boxcar convolution, with a window of
  the ICU duration, of \<open>icu_probability * E(t - icu_lag) / incubation_period\<close>. The code
  convolves with \<open>Hwindow\<close>, the window of the hospital duration (\<open>ICUwindow\<close> is built and
  never used), and it takes block 2 of the lagged solution, the infectious counts, where
  the deaths a few lines below take block 1, the exposed counts.

  In the example run the first 21 lagged queries are at negative times and answer the
  initial state, whatever the trajectory: the first row of the code's series is the sum of
  11 daily flows of \<open>5 / 3\<close> (the 21-day window), where the window of 7 days sums 4 of them.
  With an ICU duration of 21 days, so that the two windows coincide, and 6000 exposed and
  4000 infectious at the start, the code's first row is \<open>11 * 4 / 3\<close> and the claimed one is
  \<open>11 * 6 / 3\<close>. The ODE primitive is stood in for by the constant trajectory; the rows
  shown do not read it.
\<close>

theorem C1_icu_window_and_block:
  "map_sum id (\<lambda>r. ICU_active_of r ! 0) (example_run constant_solver) = Inr [55 / 3]
   \<and> map_sum id (\<lambda>rows. rows ! 0)
        (bind_result (simulate constant_solver example_state 200)
           (\<lambda>model. ICU_active_spec model (daily_grid 200))) = Inr [20 / 3]
   \<and> map_sum id (\<lambda>r. ICU_active_of r ! 0)
        (bind_result
           (simulate constant_solver
              (example_model\<lparr>icu_duration := PInt 21, Y0 := Some [990000, 6000, 4000, 0]\<rparr>) 200)
           (\<lambda>model. evaluate_solution model (daily_grid 200))) = Inr [44 / 3]
   \<and> map_sum id (\<lambda>rows. rows ! 0)
        (bind_result
           (simulate constant_solver
              (example_model\<lparr>icu_duration := PInt 21, Y0 := Some [990000, 6000, 4000, 0]\<rparr>) 200)
           (\<lambda>model. ICU_active_spec model (daily_grid 200))) = Inr [22]"
proof -
  let ?y0 = "[990000, 5000, 5000, 0] :: real list"
  let ?m = "example_state\<lparr>SEIR_solution := Some (\<lambda>t. ?y0)\<rparr>"
  have len: "\<forall>t :: real. length ?y0 = 4"
    by simp
  from example_run_first_rows [of constant_solver "\<lambda>t. [990000, 5000, 5000, 0]",
      OF constant_solver_example len]
  have code: "map_sum id (\<lambda>r. ICU_active_of r ! 0) (example_run constant_solver) = Inr [55 / 3]"
    by auto
  have sim: "simulate constant_solver example_state 200 = Inr ?m"
    by (simp add: simulate_def constant_solver_example bind_result_Inr)
  have "ICU_active_spec ?m (daily_grid 200) =
    Inr (map (\<lambda>c. [c]) (take 200 (drop ((nat 7 - 1) div 2)
           (convolve_full
              (map (\<lambda>j. 1 / 1000 * (solution_row (\<lambda>t. ?y0) ?y0 (real j - of_int 21) ! 1 / 3))
                 [0..<200])
              (replicate (nat 7) 1)))))"
    by (rule ICU_active_spec_single) (simp_all add: example_state_def example_model_def)
  moreover have "map (\<lambda>c. [c]) (take 200 (drop ((nat 7 - 1) div 2)
           (convolve_full
              (map (\<lambda>j. 1 / 1000 * (solution_row (\<lambda>t. ?y0) ?y0 (real j - of_int 21) ! 1 / 3))
                 [0..<200])
              (replicate (nat 7) 1)))) ! 0 = [20 / 3]"
    by (subst same_window_first_row) (simp_all add: sum_first_4 solution_row_def)
  ultimately have spec: "map_sum id (\<lambda>rows. rows ! 0)
        (bind_result (simulate constant_solver example_state 200)
           (\<lambda>model. ICU_active_spec model (daily_grid 200))) = Inr [20 / 3]"
    by (simp add: sim bind_result_Inr)
  have sim2: "simulate constant_solver
      (example_model\<lparr>icu_duration := PInt 21, Y0 := Some [990000, 6000, 4000, 0]\<rparr>) 200 =
      Inr (example_model\<lparr>icu_duration := PInt 21, Y0 := Some [990000, 6000, 4000, 0],
                         SEIR_solution := Some (\<lambda>t. [990000, 6000, 4000, 0])\<rparr>)"
    by (simp add: simulate_def constant_solver_def bind_result_Inr)
  from code spec icu_block_first_rows show ?thesis
    by (simp only: sim2 bind_result_Inr simp_thms)
qed

section \<open>Day 0 of the example run (C10)\<close>

text \<open>
  C10 says that in the example run the cumulative deaths are exactly 0 at day 0. The
  death series is the running sum of \<open>death_probability * E(t - 27) / incubation_period\<close>,
  and the query at \<open>t = - 27\<close> answers the initial state, whose exposed count is 5000: the
  first row is \<open>0.1 * 5000 / 3\<close>.
\<close>

theorem C10_deaths_at_day_zero_counterexample:
  "map_sum id (\<lambda>r. deaths_of r ! 0) (example_run constant_solver) = Inr [500 / 3]
   \<and> [500 / 3] \<noteq> [0 :: real]"
proof -
  have "\<forall>t :: real. length [990000, 5000, 5000, 0 :: real] = 4"
    by simp
  from example_run_first_rows [of constant_solver "\<lambda>t. [990000, 5000, 5000, 0]",
      OF constant_solver_example this]
  show ?thesis
    by auto
qed

text \<open>
  C10 as amended: in the example run, whatever four-dimensional trajectory the ODE
  primitive answers with, the evaluation on the daily grid returns; at day 0 the
  cumulative deaths are \<open>0.1 * 5000 / 3 = 500 / 3\<close>, and the active hospitalizations are
  \<open>100 + (E(0) + E(1) + E(2) + E(3) + E(4)) / 300\<close>, where \<open>E(k)\<close> is the exposed count of the
  trajectory at day \<open>k\<close>: the centred 21-day window reaches the daily admissions
  \<open>0.01 * E(t - 6) / 3\<close> of days 0 to 10, six of them read off the initial state.
\<close>

theorem C10_day_zero:
  assumes "solve_ivp (seir_call example_state) 200 (Y0 example_state) = Inr solution"
    and "\<forall>t. length (solution t) = 4"
  shows "\<exists>r. example_run solve_ivp = Inr r \<and>
      deaths_of r ! 0 = [500 / 3] \<and>
      H_active_of r ! 0 = [100 + (\<Sum>k<5. solution (real k) ! 1) / 300]"
  using example_run_first_rows [of solve_ivp solution, OF assms] by blast

theorem C10_day_zero_witness:
  "\<exists>r. example_run constant_solver = Inr r \<and>
      deaths_of r ! 0 = [500 / 3] \<and> H_active_of r ! 0 = [550 / 3]"
proof -
  have "\<forall>t :: real. length [990000, 5000, 5000, 0 :: real] = 4"
    by simp
  from C10_day_zero [of constant_solver "\<lambda>t. [990000, 5000, 5000, 0]",
      OF constant_solver_example this]
  show ?thesis
    by (simp add: sum_first_5)
qed

end
